theory Spec2Isabelle
  imports Main "HOL-Library.Word"
begin

unbundle bit_operations_syntax

section \<open>Data model\<close>

text \<open>
  Octets are 8-bit words; an IPv6 address is the C array \<open>uint8_t[16]\<close>, kept as the
  list of its octets so that \<open>memcmp\<close> and \<open>memcpy\<close> on prefixes read as \<open>take\<close>
  and \<open>@\<close>.
\<close>

type_synonym u8 = "8 word"
type_synonym u16 = "16 word"
type_synonym u32 = "32 word"
type_synonym octets = "u8 list"

text \<open>\<open>enum addrtype\<close> of the address header.\<close>

datatype addrtype =
    ADDR_NONE
  | ADDR_802_15_4_SHORT
  | ADDR_802_15_4_LONG
  | ADDR_IPV6
  | ADDR_BROADCAST
  | ADDR_EUI_48

text \<open>\<open>sockaddr_t\<close> (the port is not used by the ICMPv6 engine).\<close>

record sockaddr =
  addr_type :: addrtype
  address :: octets

text \<open>The constant addresses of the address header, written out octet by octet.\<close>

definition ADDR_LINK_LOCAL_PREFIX :: octets where
  "ADDR_LINK_LOCAL_PREFIX = [0xfe, 0x80, 0, 0, 0, 0, 0, 0]"

definition ADDR_MULTICAST_SOLICITED :: octets where
  "ADDR_MULTICAST_SOLICITED = [0xff, 0x02, 0, 0, 0, 0, 0, 0, 0, 0, 0, 0x01, 0xff]"

definition ADDR_LINK_LOCAL_ALL_NODES :: octets where
  "ADDR_LINK_LOCAL_ALL_NODES = [0xff, 0x02, 0, 0, 0, 0, 0, 0, 0, 0, 0, 0, 0, 0, 0, 0x01]"

definition ADDR_UNSPECIFIED :: octets where
  "ADDR_UNSPECIFIED = replicate 16 0"

text \<open>
  Modelled from the spec: the address predicates \<open>addr_is_ipv6_multicast\<close>,
  \<open>addr_is_ipv6_unspecified\<close> and \<open>addr_is_ipv6_link_local\<close> are declared in a header
  that is not under src/. The data model gives the prefixes: multicast is ff00::/8,
  unspecified is ::, link-local is fe80::/10.
\<close>

definition addr_is_ipv6_multicast :: "octets \<Rightarrow> bool" where
  "addr_is_ipv6_multicast a = (take 1 a = [0xff])"

definition addr_is_ipv6_unspecified :: "octets \<Rightarrow> bool" where
  "addr_is_ipv6_unspecified a = (take 16 a = ADDR_UNSPECIFIED)"

definition addr_is_ipv6_link_local :: "octets \<Rightarrow> bool" where
  "addr_is_ipv6_link_local a =
     (case a of b0 # b1 # _ \<Rightarrow> b0 = 0xfe \<and> b1 AND 0xc0 = 0x80 | _ \<Rightarrow> False)"

text \<open>
  The packet buffer \<open>buffer_t\<close>: the per-packet options, the two socket addresses, the
  direction and layer tags of \<open>buf->info\<close>, the octets between the data pointer and the
  data end, the acknowledgement callback and the forced route.
\<close>

datatype direction = B_DIR_UP | B_DIR_DOWN

datatype layer = B_LAYER_NONE | B_LAYER_ICMP | B_LAYER_IPV6

record buffer_info =
  dir :: direction
  from_layer :: layer
  to_layer :: layer

record buffer_options =
  hop_limit :: u8
  type :: u8
  code :: u8
  traffic_class :: u8
  ll_security_bypass_rx :: bool
  ll_broadcast_rx :: bool
  ll_multicast_rx :: bool

datatype ack_cb = icmpv6_aro_cb | ack_receive_cb | ack_remove_neighbour_cb

record buffer =
  options :: buffer_options
  src_sa :: sockaddr
  dst_sa :: sockaddr
  info :: buffer_info
  buf_data :: octets
  ack_cb_of :: "ack_cb option"
  route_next_hop :: "octets option"

text \<open>
  Neighbour cache entries and the cache. The entry structure is declared in a header that
  is not under src/; the fields are those of the data model that the ICMPv6 engine reads
  or hands on.
\<close>

datatype ip_neighbour_state =
    IP_NEIGHBOUR_NEW
  | IP_NEIGHBOUR_INCOMPLETE
  | IP_NEIGHBOUR_REACHABLE
  | IP_NEIGHBOUR_STALE
  | IP_NEIGHBOUR_DELAY
  | IP_NEIGHBOUR_PROBE
  | IP_NEIGHBOUR_UNREACHABLE

record ipv6_neighbour =
  ip_address :: octets
  ll_type :: addrtype
  ll_address :: octets
  state :: ip_neighbour_state

record ipv6_neighbour_cache =
  recv_addr_reg :: bool
  omit_na_aro_success :: bool
  omit_na :: bool
  reachable_time :: u32
  neighbour_list :: "ipv6_neighbour list"

text \<open>
  The interface \<open>struct net_if\<close>, restricted to the fields the ICMPv6 engine and the two
  timers touch. The core has a single interface, so a buffer's \<open>interface\<close> pointer and
  \<open>protocol_stack_interface_info_get()\<close> both denote this record.
\<close>

record net_if =
  ip_addresses :: "octets list"
  ipv6_neighbour_cache :: ipv6_neighbour_cache
  icmp_tokens :: u16
  cur_hop_limit :: u8
  reachable_time_ttl :: u16
  base_reachable_time :: u32
  mac :: octets

text \<open>
  What the engine can change besides the interface: the receive-drop statistic, and the
  Wi-SUN layer's record of blacklisted neighbours, registration failures and neighbour
  refreshes.
\<close>

datatype ws_event =
    Black_list_neighbour octets u8
  | Aro_failure octets
  | Neighbor_update octets
  | Neighbor_remove octets

record stack =
  cur_if :: net_if
  stats_ip_rx_drop :: nat
  ws_log :: "ws_event list"

text \<open>\<open>struct ipv6_nd_opt_earo\<close>: the registration option handed to the builders.\<close>

record ipv6_nd_opt_earo =
  status :: u8
  opaque :: u8
  earo_i :: u8
  earo_r :: bool
  earo_t :: bool
  tid :: u8
  lifetime :: u16
  eui64 :: octets
  present :: bool

section \<open>Collaborators outside the engine\<close>

text \<open>
  The ICMPv6 engine calls into address selection, routing, the buffer allocator, the
  link-layer option codec, the registration handler, the neighbour cache and the random
  number generator. None of them is under src/, and no statement below depends on what they compute, so they are taken
  as parameters: one record of functions, passed to every operation that calls them.
  \<open>buffer_alloc_ok\<close> says whether \<open>buffer_get\<close> and \<open>buffer_headroom\<close> find memory.
  The neighbour cache update takes the position of the entry in the cache list, where
  the C code passes a pointer to it.
\<close>

record env =
  addr_interface_address_compare :: "net_if \<Rightarrow> octets \<Rightarrow> int"
  addr_is_assigned_to_interface :: "net_if \<Rightarrow> octets \<Rightarrow> bool"
  addr_get_entry :: "net_if \<Rightarrow> octets \<Rightarrow> bool"
  addr_select_source :: "net_if \<Rightarrow> octets \<Rightarrow> octets option"
  addr_interface_get_ll_address :: "net_if \<Rightarrow> octets option"
  buffer_turnaround :: "buffer \<Rightarrow> buffer"
  ipv6_buffer_route :: "buffer \<Rightarrow> buffer option"
  ipv6_max_unfragmented_payload :: "buffer \<Rightarrow> u16"
  buffer_alloc_ok :: bool
  if_llao_parse :: "net_if \<Rightarrow> octets \<Rightarrow> sockaddr \<Rightarrow> u8 \<times> sockaddr"
  if_llao_write :: "net_if \<Rightarrow> u8 \<Rightarrow> bool \<Rightarrow> octets \<Rightarrow> octets"
  nd_ns_earo_handler ::
    "stack \<Rightarrow> octets \<Rightarrow> octets option \<Rightarrow> octets \<Rightarrow> octets \<Rightarrow> bool \<times> ipv6_nd_opt_earo \<times> stack"
  ipv6_neighbour_update_unsolicited ::
    "ipv6_neighbour_cache \<Rightarrow> octets \<Rightarrow> addrtype \<Rightarrow> octets \<Rightarrow> ipv6_neighbour_cache"
  ipv6_neighbour_update_from_na ::
    "ipv6_neighbour_cache \<Rightarrow> nat \<Rightarrow> u8 \<Rightarrow> addrtype \<Rightarrow> octets \<Rightarrow> ipv6_neighbour_cache"
  ws_common_negative_aro_mark :: "net_if \<Rightarrow> octets \<Rightarrow> bool"
  rand_randomise_base :: "u32 \<Rightarrow> u16 \<Rightarrow> u16 \<Rightarrow> u32"

text \<open>
  Modelled from the spec: the protocol numbers and ICMPv6 type and code macros come from
  headers that are not under src/. The values are those of the RFCs the spec names
  (RFC 8200 next-header numbers, RFC 4443 and RFC 4861 message types, RFC 8505 status
  codes, the R, S and O bits of the advertisement's first octet as drawn in the source's
  message diagram).
\<close>

definition IPV6_HDRLEN :: nat where "IPV6_HDRLEN = 40"
definition IPV6_HDROFF_PAYLOAD_LENGTH :: nat where "IPV6_HDROFF_PAYLOAD_LENGTH = 4"
definition IPV6_HDROFF_NH :: nat where "IPV6_HDROFF_NH = 6"
definition IPV6_MIN_LINK_MTU :: nat where "IPV6_MIN_LINK_MTU = 1280"

definition IPV6_NH_HOP_BY_HOP :: u8 where "IPV6_NH_HOP_BY_HOP = 0"
definition IPV6_NH_ROUTING :: u8 where "IPV6_NH_ROUTING = 43"
definition IPV6_NH_AUTH :: u8 where "IPV6_NH_AUTH = 51"
definition IPV6_NH_ICMPV6 :: u8 where "IPV6_NH_ICMPV6 = 58"
definition IPV6_NH_DEST_OPT :: u8 where "IPV6_NH_DEST_OPT = 60"
definition IPV6_NH_MOBILITY :: u8 where "IPV6_NH_MOBILITY = 135"
definition IPV6_NH_HIP :: u8 where "IPV6_NH_HIP = 139"
definition IPV6_NH_SHIM6 :: u8 where "IPV6_NH_SHIM6 = 140"

definition ICMPV6_TYPE_ERROR_DESTINATION_UNREACH :: u8 where
  "ICMPV6_TYPE_ERROR_DESTINATION_UNREACH = 1"
definition ICMPV6_TYPE_ERROR_PACKET_TOO_BIG :: u8 where
  "ICMPV6_TYPE_ERROR_PACKET_TOO_BIG = 2"
definition ICMPV6_TYPE_ERROR_PARAMETER_PROBLEM :: u8 where
  "ICMPV6_TYPE_ERROR_PARAMETER_PROBLEM = 4"
definition ICMPV6_CODE_PARAM_PRB_UNREC_IPV6_OPT :: u8 where
  "ICMPV6_CODE_PARAM_PRB_UNREC_IPV6_OPT = 2"
definition ICMPV6_TYPE_INFO_NS :: u8 where "ICMPV6_TYPE_INFO_NS = 135"
definition ICMPV6_TYPE_INFO_NA :: u8 where "ICMPV6_TYPE_INFO_NA = 136"
definition ICMPV6_TYPE_INFO_REDIRECT :: u8 where "ICMPV6_TYPE_INFO_REDIRECT = 137"

definition ICMPV6_OPT_SRC_LL_ADDR :: u8 where "ICMPV6_OPT_SRC_LL_ADDR = 1"
definition ICMPV6_OPT_TGT_LL_ADDR :: u8 where "ICMPV6_OPT_TGT_LL_ADDR = 2"
definition ICMPV6_OPT_ADDR_REGISTRATION :: u8 where "ICMPV6_OPT_ADDR_REGISTRATION = 33"

definition ARO_SUCCESS :: u8 where "ARO_SUCCESS = 0"
definition ARO_TOPOLOGICALLY_INCORRECT :: u8 where "ARO_TOPOLOGICALLY_INCORRECT = 8"

definition NA_R :: u8 where "NA_R = 0x80"
definition NA_S :: u8 where "NA_S = 0x40"
definition NA_O :: u8 where "NA_O = 0x20"

definition IP_DSCP_CS6 :: u8 where "IP_DSCP_CS6 = 48"
definition IP_TCLASS_DSCP_SHIFT :: nat where "IP_TCLASS_DSCP_SHIFT = 2"

text \<open>Big-endian accessors of \<open>common/endian.h\<close>.\<close>

definition read_be16 :: "octets \<Rightarrow> nat" where
  "read_be16 p = unat (p ! 0) * 256 + unat (p ! 1)"

definition write_be16 :: "u16 \<Rightarrow> octets" where
  "write_be16 v = [ucast (drop_bit 8 v), ucast v]"

definition write_be32 :: "u32 \<Rightarrow> octets" where
  "write_be32 v = [ucast (drop_bit 24 v), ucast (drop_bit 16 v), ucast (drop_bit 8 v), ucast v]"

section \<open>The ICMPv6 error responder\<close>

text \<open>
  \<open>is_icmpv6_msg\<close>: walk the extension headers of the offending packet until an ICMPv6
  header is found. The loop of the source runs on the pointer \<open>ptr\<close>, the remaining
  length \<open>len\<close> and the next-header value \<open>nh\<close>; it ends because every header it skips
  is at least eight octets long. The result of the loop is the type and code it found.
\<close>

function is_icmpv6_msg_loop :: "octets \<Rightarrow> nat \<Rightarrow> u8 \<Rightarrow> (u8 \<times> u8) option" where
  "is_icmpv6_msg_loop p len nh =
     (if len = 0 then None
      else if nh = IPV6_NH_ICMPV6 then
        (if len < 4 then None else Some (p ! 0, p ! 1))
      else if nh = IPV6_NH_HOP_BY_HOP \<or> nh = IPV6_NH_DEST_OPT \<or> nh = IPV6_NH_ROUTING
              \<or> nh = IPV6_NH_MOBILITY \<or> nh = IPV6_NH_HIP \<or> nh = IPV6_NH_SHIM6 then
        (if len < 8 then None
         else if (unat (p ! 1) + 1) * 8 > len \<or> ((unat (p ! 1) + 1) * 8) mod 8 \<noteq> 0 then None
         else is_icmpv6_msg_loop (drop ((unat (p ! 1) + 1) * 8) p)
                (len - (unat (p ! 1) + 1) * 8) (p ! 0))
      else if nh = IPV6_NH_AUTH then
        (if len < 8 then None
         else if (unat (p ! 1) + 2) * 4 > len \<or> ((unat (p ! 1) + 2) * 4) mod 8 \<noteq> 0 then None
         else is_icmpv6_msg_loop (drop ((unat (p ! 1) + 2) * 4) p)
                (len - (unat (p ! 1) + 2) * 4) (p ! 0))
      else None)"
  by pat_completeness auto
termination
  by (relation "measure (\<lambda>(p, len, nh). len)") auto

declare is_icmpv6_msg_loop.simps [simp del]

text \<open>
  The function proper: the fixed header must be there and the payload length must fit in
  what follows it. On success the type and code are written into the buffer's options.
\<close>

definition is_icmpv6_msg :: "buffer \<Rightarrow> bool \<times> buffer" where
  "is_icmpv6_msg buf =
     (let p = buf_data buf; len = length p in
      if len < IPV6_HDRLEN then (False, buf)
      else
        let ip_len = read_be16 (drop IPV6_HDROFF_PAYLOAD_LENGTH p);
            nh = p ! IPV6_HDROFF_NH
        in if ip_len > len - IPV6_HDRLEN then (False, buf)
           else (case is_icmpv6_msg_loop (drop IPV6_HDRLEN p) ip_len nh of
                   None \<Rightarrow> (False, buf)
                 | Some (t, c) \<Rightarrow> (True, buf\<lparr>options := (options buf)\<lparr>type := t, code := c\<rparr>\<rparr>)))"

text \<open>
  \<open>icmpv6_error\<close>. \<open>buffer_free\<close> releases the packet and returns \<open>NULL\<close>: the result
  \<open>None\<close> is "no error packet". The statistic counts the receive drop, the two address
  fields are swapped or the destination overwritten as in the source, and the token is
  taken only after the route has been found. When the headroom cannot be had the
  function returns \<open>NULL\<close> with the token already spent.
\<close>

definition icmpv6_error ::
  "env \<Rightarrow> stack \<Rightarrow> buffer \<Rightarrow> u8 \<Rightarrow> u8 \<Rightarrow> u32 \<Rightarrow> buffer option \<times> stack" where
  "icmpv6_error e st buf0 etype ecode aux =
     (if ll_security_bypass_rx (options buf0) then (None, st)
      else
        let st1 = (if dir (info buf0) = B_DIR_UP
                   then st\<lparr>stats_ip_rx_drop := stats_ip_rx_drop st + 1\<rparr> else st);
            (is_icmp, buf1) = is_icmpv6_msg buf0
        in if is_icmp \<and> (type (options buf1) < 128
                          \<or> type (options buf1) = ICMPV6_TYPE_INFO_REDIRECT)
           then (None, st1)
           else if (addr_is_ipv6_multicast (address (dst_sa buf1))
                    \<or> ll_broadcast_rx (options buf1) \<or> ll_multicast_rx (options buf1))
                   \<and> \<not> (etype = ICMPV6_TYPE_ERROR_PACKET_TOO_BIG
                          \<or> (etype = ICMPV6_TYPE_ERROR_PARAMETER_PROBLEM
                              \<and> ecode = ICMPV6_CODE_PARAM_PRB_UNREC_IPV6_OPT))
           then (None, st1)
           else if addr_is_ipv6_unspecified (address (src_sa buf1))
                   \<or> addr_is_ipv6_multicast (address (src_sa buf1))
           then (None, st1)
           else
             let buf2 =
                   (if addr_interface_address_compare e (cur_if st1) (address (dst_sa buf1)) = 0
                    then buf1\<lparr>dst_sa := (dst_sa buf1)\<lparr>address := address (src_sa buf1)\<rparr>,
                              src_sa := (src_sa buf1)\<lparr>address := address (dst_sa buf1)\<rparr>\<rparr>
                    else buf1\<lparr>dst_sa := src_sa buf1,
                              src_sa := (src_sa buf1)\<lparr>addr_type := ADDR_NONE\<rparr>\<rparr>);
                 buf3 = buffer_turnaround e buf2
             in (case ipv6_buffer_route e buf3 of
                   None \<Rightarrow> (None, st1)
                 | Some buf4 \<Rightarrow>
                     if icmp_tokens (cur_if st1) = 0 then (None, st1)
                     else
                       let st2 = st1\<lparr>cur_if := (cur_if st1)\<lparr>icmp_tokens := icmp_tokens (cur_if st1) - 1\<rparr>\<rparr>;
                           max_payload = uint (ipv6_max_unfragmented_payload e buf4);
                           buf5 = (if int (length (buf_data buf4)) > max_payload - 8
                                   then buf4\<lparr>buf_data := take (nat ((max_payload - 8) mod 65536)) (buf_data buf4)\<rparr>
                                   else buf4)
                       in if \<not> buffer_alloc_ok e then (None, st2)
                          else (Some (buf5\<lparr>buf_data := write_be32 aux @ buf_data buf5,
                                           options := (options buf5)\<lparr>traffic_class := 0, type := etype,
                                                        code := ecode, hop_limit := cur_hop_limit (cur_if st2)\<rparr>,
                                           info := \<lparr>dir = B_DIR_DOWN, from_layer = B_LAYER_ICMP,
                                                    to_layer = B_LAYER_ICMP\<rparr>\<rparr>), st2)))"

text \<open>
  \<open>icmp_fast_timer\<close>: \<open>ticks\<close> is a C \<open>int\<close> added to the 16-bit counter, so the sum is
  reduced modulo \<open>2^16\<close> before the cap is applied.
\<close>

definition icmp_fast_timer :: "int \<Rightarrow> stack \<Rightarrow> stack" where
  "icmp_fast_timer ticks st =
     (let t = (word_of_int (uint (icmp_tokens (cur_if st)) + ticks) :: u16)
      in st\<lparr>cur_if := (cur_if st)\<lparr>icmp_tokens := (if t > 10 then 10 else t)\<rparr>\<rparr>)"

section \<open>Option chains\<close>

text \<open>
  Modelled from the spec: the bounds-checked reader \<open>struct iobuf_read\<close> of
  \<open>common/iobuf.c\<close> is not under src/. It is a cursor \<open>cnt\<close> into \<open>data\<close> with a sticky
  error flag: a read past the end sets \<open>err\<close> and yields zero or \<open>NULL\<close>, after which
  nothing remains to be read, which is what lets the option-chain rule "the chain
  consumes exactly the remaining buffer" be checked by \<open>!input.err\<close>. A read of zero
  octets succeeds and leaves the cursor where it is.
\<close>

record iobuf_read =
  data :: octets
  cnt :: nat
  err :: bool

definition iobuf_remaining_size :: "iobuf_read \<Rightarrow> nat" where
  "iobuf_remaining_size b = (if err b then 0 else length (data b) - cnt b)"

definition iobuf_ptr :: "iobuf_read \<Rightarrow> octets" where
  "iobuf_ptr b = (if err b then [] else drop (cnt b) (data b))"

definition iobuf_pop_data_ptr :: "iobuf_read \<Rightarrow> nat \<Rightarrow> octets option \<times> iobuf_read" where
  "iobuf_pop_data_ptr b n =
     (if err b \<or> iobuf_remaining_size b < n then (None, b\<lparr>err := True\<rparr>)
      else (Some (take n (drop (cnt b) (data b))), b\<lparr>cnt := cnt b + n\<rparr>))"

definition iobuf_pop_u8 :: "iobuf_read \<Rightarrow> u8 \<times> iobuf_read" where
  "iobuf_pop_u8 b =
     (if err b \<or> iobuf_remaining_size b < 1 then (0, b\<lparr>err := True\<rparr>)
      else (data b ! cnt b, b\<lparr>cnt := cnt b + 1\<rparr>))"

definition iobuf_pop_be16 :: "iobuf_read \<Rightarrow> u16 \<times> iobuf_read" where
  "iobuf_pop_be16 b =
     (if err b \<or> iobuf_remaining_size b < 2 then (0, b\<lparr>err := True\<rparr>)
      else (word_of_nat (read_be16 (drop (cnt b) (data b))), b\<lparr>cnt := cnt b + 2\<rparr>))"

definition iobuf_pop_data :: "iobuf_read \<Rightarrow> nat \<Rightarrow> octets \<times> iobuf_read" where
  "iobuf_pop_data b n =
     (if err b \<or> iobuf_remaining_size b < n then (replicate n 0, b\<lparr>err := True\<rparr>)
      else (take n (drop (cnt b) (data b)), b\<lparr>cnt := cnt b + n\<rparr>))"

text \<open>
  \<open>icmpv6_nd_options_validate\<close>: every option has a non-zero length and the chain ends
  exactly at the end of the data. The loop ends because each round either returns, sets
  \<open>err\<close>, or moves the cursor by at least eight octets.
\<close>

function icmpv6_nd_options_validate_loop :: "iobuf_read \<Rightarrow> bool" where
  "icmpv6_nd_options_validate_loop input =
     (if iobuf_remaining_size input = 0 then \<not> err input
      else
        let opt_start = cnt input;
            in1 = snd (iobuf_pop_u8 input);
            opt_len = 8 * unat (fst (iobuf_pop_u8 in1));
            in2 = snd (iobuf_pop_u8 in1)
        in if opt_len = 0 then False
           else icmpv6_nd_options_validate_loop
                  (snd (iobuf_pop_data_ptr (in2\<lparr>cnt := opt_start\<rparr>) opt_len)))"
  by pat_completeness auto
termination
proof -
  have key: "iobuf_remaining_size
               (snd (iobuf_pop_data_ptr ((snd (iobuf_pop_u8 (snd (iobuf_pop_u8 input))))\<lparr>cnt := cnt input\<rparr>) n))
             < iobuf_remaining_size input"
    if rem: "iobuf_remaining_size input \<noteq> 0"
      and len: "unat (fst (iobuf_pop_u8 (snd (iobuf_pop_u8 input)))) \<noteq> 0"
      and n: "0 < n"
    for input n
  proof -
    from rem have ok: "\<not> err input" "cnt input < length (data input)"
      by (auto simp: iobuf_remaining_size_def split: if_splits)
    then have in1: "snd (iobuf_pop_u8 input) = input\<lparr>cnt := cnt input + 1\<rparr>"
      by (simp add: iobuf_pop_u8_def iobuf_remaining_size_def)
    from len have "\<not> err (snd (iobuf_pop_u8 (snd (iobuf_pop_u8 input))))"
      by (auto simp: iobuf_pop_u8_def split: if_splits)
    then have "(snd (iobuf_pop_u8 (snd (iobuf_pop_u8 input))))\<lparr>cnt := cnt input\<rparr> = input"
      using ok by (auto simp: in1 iobuf_pop_u8_def split: if_splits)
    then show ?thesis
      using ok n by (auto simp add: iobuf_pop_data_ptr_def iobuf_remaining_size_def)
  qed
  show ?thesis
    by (relation "measure iobuf_remaining_size") (simp_all add: key)
qed

declare icmpv6_nd_options_validate_loop.simps [simp del]

definition icmpv6_nd_options_validate :: "octets \<Rightarrow> bool" where
  "icmpv6_nd_options_validate p =
     icmpv6_nd_options_validate_loop \<lparr>data = p, cnt = 0, err = False\<rparr>"

text \<open>
  \<open>icmpv6_nd_option_get\<close>: scan for the first option of a given type. The result is the
  octets of that option (\<open>res->data\<close> with \<open>res->data_size\<close>), or nothing, which is the
  \<open>false\<close> return. Unlike the validation loop this one does not stop at an option of
  length zero: when such an option is not the one looked for, skipping it reads zero
  octets and the next round starts at the same cursor. The loop is therefore a partial
  function, and \<open>None\<close> at the outer level stands for a scan that never returns.
\<close>

partial_function (option) icmpv6_nd_option_get_loop ::
  "iobuf_read \<Rightarrow> u8 \<Rightarrow> octets option option" where
  "icmpv6_nd_option_get_loop input opt =
     (if iobuf_remaining_size input = 0 then Some None
      else
        let opt_start = cnt input;
            opt_type = fst (iobuf_pop_u8 input);
            in1 = snd (iobuf_pop_u8 input);
            opt_len = 8 * unat (fst (iobuf_pop_u8 in1));
            in2 = (snd (iobuf_pop_u8 in1))\<lparr>cnt := opt_start\<rparr>
        in if opt_type = opt then Some (fst (iobuf_pop_data_ptr in2 opt_len))
           else icmpv6_nd_option_get_loop (snd (iobuf_pop_data_ptr in2 opt_len)) opt)"

declare icmpv6_nd_option_get_loop.simps [code]

definition icmpv6_nd_option_get :: "octets \<Rightarrow> u8 \<Rightarrow> octets option option" where
  "icmpv6_nd_option_get p opt =
     icmpv6_nd_option_get_loop \<lparr>data = p, cnt = 0, err = False\<rparr> opt"

definition icmpv6_options_well_formed_in_buffer :: "buffer \<Rightarrow> nat \<Rightarrow> bool" where
  "icmpv6_options_well_formed_in_buffer buf offset =
     (if length (buf_data buf) < offset then False
      else icmpv6_nd_options_validate (drop offset (buf_data buf)))"

definition icmpv6_find_option_in_buffer :: "buffer \<Rightarrow> nat \<Rightarrow> u8 \<Rightarrow> octets option option" where
  "icmpv6_find_option_in_buffer buf offset opt =
     icmpv6_nd_option_get (drop offset (buf_data buf)) opt"

text \<open>
  What a call can do besides returning: \<open>Fault\<close> is a read through a \<open>NULL\<close> pointer.
\<close>

datatype 'a outcome = Returned 'a | Fault

text \<open>
  \<open>icmpv6_nd_ws_sllao_dummy\<close>: build a source link-layer option from the EUI-64 of a
  registration option. When the registration option is too short, the last read yields
  \<open>NULL\<close>, and the copy into the dummy option reads through it.
\<close>

definition icmpv6_nd_ws_sllao_dummy :: "octets \<Rightarrow> (bool \<times> octets) outcome" where
  "icmpv6_nd_ws_sllao_dummy aro =
     (let earo0 = \<lparr>data = aro, cnt = 0, err = False\<rparr>;
          earo1 = snd (iobuf_pop_u8 earo0);
          earo2 = snd (iobuf_pop_u8 earo1);
          earo3 = snd (iobuf_pop_u8 earo2);
          earo4 = snd (iobuf_pop_data_ptr earo3 3);
          earo5 = snd (iobuf_pop_be16 earo4);
          eui = fst (iobuf_pop_data_ptr earo5 8);
          earo6 = snd (iobuf_pop_data_ptr earo5 8)
      in case eui of
           None \<Rightarrow> Fault
         | Some eui_octets \<Rightarrow>
             let sllao = [ICMPV6_OPT_SRC_LL_ADDR, 0] @ eui_octets;
                 padded = sllao @ replicate ((8 - length sllao mod 8) mod 8) 0
             in Returned (\<not> err earo6, padded[1 := word_of_nat (length padded div 8)]))"

section \<open>Neighbour Advertisement and Solicitation builders\<close>

text \<open>
  Modelled from the spec: \<open>buffer_get\<close> is the packet buffer's \<open>alloc(capacity)\<close>, which
  is not under src/. A fresh buffer has empty data and cleared metadata.
\<close>

definition buffer_get :: buffer where
  "buffer_get =
     \<lparr>options = \<lparr>hop_limit = 0, type = 0, code = 0, traffic_class = 0,
                  ll_security_bypass_rx = False, ll_broadcast_rx = False,
                  ll_multicast_rx = False\<rparr>,
      src_sa = \<lparr>addr_type = ADDR_NONE, address = replicate 16 0\<rparr>,
      dst_sa = \<lparr>addr_type = ADDR_NONE, address = replicate 16 0\<rparr>,
      info = \<lparr>dir = B_DIR_DOWN, from_layer = B_LAYER_NONE, to_layer = B_LAYER_NONE\<rparr>,
      buf_data = [], ack_cb_of = None, route_next_hop = None\<rparr>"

text \<open>
  Modelled from the spec: \<open>ipv6_buffer_route_to\<close> is not under src/; both builders call
  it to force the next hop to be the destination, and it is modelled as recording that
  next hop in the buffer.
\<close>

definition ipv6_buffer_route_to :: "buffer \<Rightarrow> octets \<Rightarrow> buffer" where
  "ipv6_buffer_route_to buf next_hop = buf\<lparr>route_next_hop := Some next_hop\<rparr>"

text \<open>
  Modelled from the spec: the flag masks of the registration option are macros of a
  header that is not under src/; the option format \<open>flags(IRT)\<close> puts \<open>I\<close> in bits 2-3,
  \<open>R\<close> in bit 1 and \<open>T\<close> in bit 0.
\<close>

definition earo_flags :: "ipv6_nd_opt_earo \<Rightarrow> u8" where
  "earo_flags ea =
     push_bit 2 (earo_i ea AND 3) OR (if earo_r ea then 2 else 0) OR (if earo_t ea then 1 else 0)"

text \<open>The link-local address derived from an EUI-64: prefix, then the EUI-64 with the
  universal/local bit of its first octet inverted.\<close>

definition ll_from_eui64 :: "octets \<Rightarrow> octets" where
  "ll_from_eui64 eui = ADDR_LINK_LOCAL_PREFIX @ (take 8 eui)[0 := (eui ! 0) XOR 2]"

text \<open>
  \<open>icmpv6_build_na\<close>. The result \<open>None\<close> is the \<open>NULL\<close> return: the advertisement is
  omitted, no buffer or no source address is to be had, or the neighbour was removed when
  the negative registration reply was marked.
\<close>

definition icmpv6_build_na ::
  "env \<Rightarrow> net_if \<Rightarrow> bool \<Rightarrow> bool \<Rightarrow> bool \<Rightarrow> octets \<Rightarrow> ipv6_nd_opt_earo option \<Rightarrow> octets
   \<Rightarrow> buffer option" where
  "icmpv6_build_na e cur solicited override tllao_required target earo src_addr =
     (if omit_na_aro_success (ipv6_neighbour_cache cur)
         \<and> (case earo of None \<Rightarrow> False
             | Some ea \<Rightarrow> \<not> (earo_r ea \<and> earo_t ea) \<and> status ea = ARO_SUCCESS)
      then None
      else if \<not> tllao_required \<and> earo = None \<and> omit_na (ipv6_neighbour_cache cur) then None
      else if \<not> buffer_alloc_ok e then None
      else
        let flags0 = (if override then NA_O else 0);
            flags = (if \<not> addr_is_ipv6_unspecified src_addr \<and> solicited
                     then flags0 OR NA_S else flags0);
            dst = (if addr_is_ipv6_unspecified src_addr then ADDR_LINK_LOCAL_ALL_NODES
                   else case earo of
                          None \<Rightarrow> src_addr
                        | Some ea \<Rightarrow> if status ea \<noteq> ARO_SUCCESS then ll_from_eui64 (eui64 ea)
                                     else src_addr)
        in case (if addr_is_assigned_to_interface e cur target then Some target
                 else addr_select_source e cur dst) of
             None \<Rightarrow> None
           | Some src \<Rightarrow>
               let body = write_be32 (push_bit 24 (ucast flags)) @ target
                          @ if_llao_write e cur ICMPV6_OPT_TGT_LL_ADDR tllao_required target
                          @ (case earo of
                               None \<Rightarrow> []
                             | Some ea \<Rightarrow>
                                 [ICMPV6_OPT_ADDR_REGISTRATION, 2, status ea, opaque ea,
                                  earo_flags ea, tid ea]
                                 @ write_be16 (lifetime ea) @ take 8 (eui64 ea));
                   negative = (case earo of
                                 None \<Rightarrow> False
                               | Some ea \<Rightarrow> status ea \<noteq> ARO_SUCCESS
                                            \<and> status ea \<noteq> ARO_TOPOLOGICALLY_INCORRECT)
               in if negative
                     \<and> \<not> ws_common_negative_aro_mark e cur (case earo of Some ea \<Rightarrow> eui64 ea | None \<Rightarrow> [])
                  then None
                  else Some (ipv6_buffer_route_to
                    (buffer_get\<lparr>
                       options := (options buffer_get)\<lparr>
                         hop_limit := 255, type := ICMPV6_TYPE_INFO_NA, code := 0,
                         traffic_class := (if negative then push_bit IP_TCLASS_DSCP_SHIFT IP_DSCP_CS6
                                           else traffic_class (options buffer_get))\<rparr>,
                       dst_sa := \<lparr>addr_type = ADDR_IPV6, address = dst\<rparr>,
                       src_sa := \<lparr>addr_type = ADDR_IPV6, address = src\<rparr>,
                       buf_data := body,
                       ack_cb_of := (if negative then Some ack_remove_neighbour_cb else None),
                       info := \<lparr>dir = B_DIR_DOWN, from_layer = B_LAYER_ICMP,
                                to_layer = B_LAYER_ICMP\<rparr>\<rparr>)
                    dst))"

text \<open>
  \<open>icmpv6_build_ns\<close>. \<open>cur\<close> and \<open>prompting_src_addr\<close> may be \<open>NULL\<close>. With a
  registration option the source is copied from \<open>prompting_src_addr\<close> without a check,
  which reads through \<open>NULL\<close> when there is none.
\<close>

definition icmpv6_build_ns ::
  "env \<Rightarrow> net_if option \<Rightarrow> octets \<Rightarrow> octets option \<Rightarrow> bool \<Rightarrow> bool \<Rightarrow> ipv6_nd_opt_earo option
   \<Rightarrow> buffer option outcome" where
  "icmpv6_build_ns e cur_opt target_addr prompting_src_addr unicast unspecified_source aro =
     (case cur_opt of
        None \<Rightarrow> Returned None
      | Some cur \<Rightarrow>
          if addr_is_ipv6_multicast target_addr then Returned None
          else if \<not> buffer_alloc_ok e then Returned None
          else
            let body = write_be32 0 @ target_addr
                       @ (case aro of
                            None \<Rightarrow> []
                          | Some a \<Rightarrow> [ICMPV6_OPT_ADDR_REGISTRATION, 2, status a, 0]
                                      @ write_be16 0 @ write_be16 (lifetime a) @ take 8 (eui64 a));
                dst = (if unicast then target_addr
                       else ADDR_MULTICAST_SOLICITED @ take 3 (drop 13 target_addr));
                from_prompt = (aro \<noteq> None
                               \<or> (case prompting_src_addr of
                                     None \<Rightarrow> False
                                   | Some p \<Rightarrow> addr_is_assigned_to_interface e cur p));
                cb_aro = (if \<not> unspecified_source \<and> omit_na_aro_success (ipv6_neighbour_cache cur)
                          then (case aro of
                                  None \<Rightarrow> None
                                | Some a \<Rightarrow> if lifetime a > 1 then Some icmpv6_aro_cb
                                            else Some ack_receive_cb)
                          else None);
                cb = (if unicast \<and> aro = None \<and> omit_na (ipv6_neighbour_cache cur)
                      then Some ack_receive_cb else cb_aro);
                finish = (\<lambda>src. Returned (Some (ipv6_buffer_route_to
                            (buffer_get\<lparr>
                               options := (options buffer_get)\<lparr>
                                 type := ICMPV6_TYPE_INFO_NS, code := 0, hop_limit := 255\<rparr>,
                               dst_sa := \<lparr>addr_type = ADDR_IPV6, address = dst\<rparr>,
                               src_sa := \<lparr>addr_type = ADDR_IPV6, address = src\<rparr>,
                               buf_data := body,
                               ack_cb_of := cb,
                               info := \<lparr>dir = B_DIR_DOWN, from_layer = B_LAYER_ICMP,
                                        to_layer = B_LAYER_ICMP\<rparr>\<rparr>)
                            dst)))
            in if unspecified_source then finish (replicate 16 0)
               else if from_prompt then
                 (case prompting_src_addr of
                    None \<Rightarrow> Fault
                  | Some p \<Rightarrow> finish p)
               else (case addr_interface_get_ll_address e cur of
                       None \<Rightarrow> Returned None
                     | Some ll \<Rightarrow> finish ll))"

section \<open>Inbound Neighbour Solicitation\<close>

text \<open>
  \<open>icmpv6_ns_handler\<close>. The two option scans come first, before any validity check, so
  they see the raw option area; a scan that never returns makes the handler never return
  (\<open>None\<close>), and the dummy option built from a short registration option makes it fault.
  Every \<open>goto drop\<close> frees the packet and returns \<open>NULL\<close> with the state as it is at that
  point. The destination test is the source's
  \<open>!memcmp(dst, ADDR_MULTICAST_SOLICITED, sizeof(ADDR_MULTICAST_SOLICITED))\<close>, which is
  true when the first thirteen octets are equal.
\<close>

definition icmpv6_ns_handler ::
  "env \<Rightarrow> stack \<Rightarrow> buffer \<Rightarrow> (buffer option \<times> stack) outcome option" where
  "icmpv6_ns_handler e st buf =
     (let cur = cur_if st;
          iobuf0 = \<lparr>data = buf_data buf, cnt = 0, err = False\<rparr>;
          iobuf1 = snd (iobuf_pop_data_ptr iobuf0 4);
          target = fst (iobuf_pop_data iobuf1 16);
          iobuf = snd (iobuf_pop_data iobuf1 16);
          opts = iobuf_ptr iobuf
      in case icmpv6_nd_option_get opts ICMPV6_OPT_SRC_LL_ADDR of
           None \<Rightarrow> None
         | Some sllao0 \<Rightarrow>
        (case icmpv6_nd_option_get opts ICMPV6_OPT_ADDR_REGISTRATION of
           None \<Rightarrow> None
         | Some earo0 \<Rightarrow>
        (let has_earo = (earo0 \<noteq> None \<and> recv_addr_reg (ipv6_neighbour_cache cur));
             earo_data = (case earo0 of Some d \<Rightarrow> d | None \<Rightarrow> [])
         in case (if has_earo \<and> sllao0 = None then icmpv6_nd_ws_sllao_dummy earo_data
                  else Returned (sllao0 \<noteq> None, case sllao0 of Some d \<Rightarrow> d | None \<Rightarrow> [])) of
              Fault \<Rightarrow> Some Fault
            | Returned (has_sllao, sllao_data) \<Rightarrow>
                Some (Returned
                 (if hop_limit (options buf) \<noteq> 255 then (None, st)
                  else if code (options buf) \<noteq> 0 then (None, st)
                  else if addr_is_ipv6_multicast target then (None, st)
                  else if \<not> icmpv6_nd_options_validate opts then (None, st)
                  else if addr_is_ipv6_unspecified (address (src_sa buf))
                          \<and> (take 13 (address (dst_sa buf)) = ADDR_MULTICAST_SOLICITED
                              \<or> has_sllao)
                  then (None, st)
                  else
                    let proxy = (addr_interface_address_compare e cur target \<noteq> 0)
                    in if proxy \<and> addr_is_ipv6_link_local target then (None, st)
                       else
                         let (ok, na_earo, st1) =
                               (if has_earo
                                then nd_ns_earo_handler e st earo_data
                                       (if has_sllao then Some sllao_data else None)
                                       (address (src_sa buf)) target
                                else (True, \<lparr>status = 0, opaque = 0, earo_i = 0, earo_r = False,
                                             earo_t = False, tid = 0, lifetime = 0,
                                             eui64 = replicate 8 0, present = False\<rparr>, st))
                         in if \<not> ok then (None, st1)
                            else
                              let parsed = if_llao_parse e (cur_if st1) sllao_data (dst_sa buf);
                                  call_parse = (\<not> present na_earo \<and> has_sllao);
                                  dst1 = (if call_parse then snd parsed else dst_sa buf);
                                  st2 = (if call_parse \<and> fst parsed \<noteq> 0
                                         then st1\<lparr>cur_if := (cur_if st1)\<lparr>ipv6_neighbour_cache :=
                                                ipv6_neighbour_update_unsolicited e
                                                  (ipv6_neighbour_cache (cur_if st1))
                                                  (address (src_sa buf)) (addr_type dst1) (address dst1)\<rparr>\<rparr>
                                         else st1)
                              in (icmpv6_build_na e (cur_if st2) True (\<not> proxy)
                                    (addr_is_ipv6_multicast (address dst1)) target
                                    (if present na_earo then Some na_earo else None)
                                    (address (src_sa buf)),
                                  st2))))))"

section \<open>Inbound Neighbour Advertisement\<close>

text \<open>
  Modelled from the spec: \<open>ipv6_neighbour_lookup\<close> is the neighbour cache's
  \<open>lookup(addr)\<close>, which is not under src/: the entry whose key is the address, or none.
  The result is the position of the entry in the cache list.
\<close>

fun neighbour_index :: "ipv6_neighbour list \<Rightarrow> octets \<Rightarrow> nat option" where
  "neighbour_index [] a = None"
| "neighbour_index (n # ns) a =
     (if ip_address n = a then Some 0 else map_option Suc (neighbour_index ns a))"

definition ipv6_neighbour_lookup :: "ipv6_neighbour_cache \<Rightarrow> octets \<Rightarrow> nat option" where
  "ipv6_neighbour_lookup cache a = neighbour_index (neighbour_list cache) a"

text \<open>
  Modelled from the spec: \<open>ws_common_black_list_neighbour\<close>, \<open>ws_common_aro_failure\<close>
  and \<open>ws_common_neighbor_update\<close> are not under src/. On a failed registration the
  engine blacklists the EUI-64 with the MAC and raises a registration-failure event to
  the RPL engine; both, and the refresh of a reachable neighbour, are kept as entries of
  the Wi-SUN log.
\<close>

definition ws_common_black_list_neighbour :: "octets \<Rightarrow> u8 \<Rightarrow> stack \<Rightarrow> stack" where
  "ws_common_black_list_neighbour a nd_status st =
     st\<lparr>ws_log := ws_log st @ [Black_list_neighbour a nd_status]\<rparr>"

definition ws_common_aro_failure :: "octets \<Rightarrow> stack \<Rightarrow> stack" where
  "ws_common_aro_failure a st = st\<lparr>ws_log := ws_log st @ [Aro_failure a]\<rparr>"

definition ws_common_neighbor_update :: "octets \<Rightarrow> stack \<Rightarrow> stack" where
  "ws_common_neighbor_update a st = st\<lparr>ws_log := ws_log st @ [Neighbor_update a]\<rparr>"

text \<open>
  \<open>icmpv6_na_wisun_aro_handler\<close>: \<open>dptr\<close> is the registration option; its status is at
  offset 2 and its EUI-64 at offset 8.
\<close>

definition icmpv6_na_wisun_aro_handler :: "stack \<Rightarrow> octets \<Rightarrow> octets \<Rightarrow> stack" where
  "icmpv6_na_wisun_aro_handler st dptr src_addr =
     (let nd_status = dptr ! 2
      in if take 8 (drop 8 dptr) \<noteq> take 8 (mac (cur_if st)) then st
         else if nd_status \<noteq> ARO_SUCCESS
         then ws_common_aro_failure src_addr (ws_common_black_list_neighbour src_addr nd_status st)
         else st)"

text \<open>
  \<open>icmpv6_na_handler\<close>. It always returns \<open>NULL\<close>; what matters is the state it leaves.
  The option chain is validated before either scan, so the outer \<open>None\<close> of a scan that
  never returns is passed on only for uniformity with the solicitation handler.
\<close>

definition icmpv6_na_handler ::
  "env \<Rightarrow> stack \<Rightarrow> buffer \<Rightarrow> (buffer option \<times> stack) option" where
  "icmpv6_na_handler e st buf =
     (if code (options buf) \<noteq> 0 \<or> hop_limit (options buf) \<noteq> 255 then Some (None, st)
      else if \<not> icmpv6_options_well_formed_in_buffer buf 20 then Some (None, st)
      else
        let dptr = buf_data buf;
            flags = dptr ! 0;
            target = take 16 (drop 4 dptr)
        in if addr_is_ipv6_multicast target then Some (None, st)
           else if addr_is_ipv6_multicast (address (dst_sa buf)) \<and> flags AND NA_S \<noteq> 0
           then Some (None, st)
           else if addr_get_entry e (cur_if st) target then Some (None, st)
           else
             (case icmpv6_find_option_in_buffer buf 20 ICMPV6_OPT_ADDR_REGISTRATION of
                None \<Rightarrow> None
              | Some aro0 \<Rightarrow>
                  let aro = (case aro0 of
                               None \<Rightarrow> None
                             | Some a \<Rightarrow> if a ! 1 \<noteq> 2 then None else Some a);
                      st1 = (case aro of
                               None \<Rightarrow> st
                             | Some a \<Rightarrow> icmpv6_na_wisun_aro_handler st a (address (src_sa buf)))
                  in (case ipv6_neighbour_lookup (ipv6_neighbour_cache (cur_if st1)) target of
                        None \<Rightarrow> Some (None, st1)
                      | Some neighbour_entry \<Rightarrow>
                          (case icmpv6_find_option_in_buffer buf 20 ICMPV6_OPT_TGT_LL_ADDR of
                             None \<Rightarrow> None
                           | Some tllao \<Rightarrow>
                               let parsed = (case tllao of
                                               None \<Rightarrow> (0, dst_sa buf)
                                             | Some t \<Rightarrow> if_llao_parse e (cur_if st1) t (dst_sa buf));
                                   dst1 = (if fst parsed = 0
                                           then (snd parsed)\<lparr>addr_type := ADDR_NONE\<rparr>
                                           else snd parsed);
                                   cache1 = ipv6_neighbour_update_from_na e
                                              (ipv6_neighbour_cache (cur_if st1)) neighbour_entry
                                              flags (addr_type dst1) (address dst1);
                                   st2 = st1\<lparr>cur_if := (cur_if st1)\<lparr>ipv6_neighbour_cache := cache1\<rparr>\<rparr>
                               in if neighbour_entry < length (neighbour_list cache1)
                                     \<and> state (neighbour_list cache1 ! neighbour_entry)
                                         = IP_NEIGHBOUR_REACHABLE
                                  then Some (None, ws_common_neighbor_update target st2)
                                  else Some (None, st2)))))"

section \<open>Timers: token refill and reachable time\<close>

definition REACHABLE_TIME_UPDATE_SECONDS :: u16 where
  "REACHABLE_TIME_UPDATE_SECONDS = 600"

definition protocol_stack_interface_set_reachable_time ::
  "env \<Rightarrow> net_if \<Rightarrow> u32 \<Rightarrow> u32 \<times> net_if" where
  "protocol_stack_interface_set_reachable_time e cur base =
     (let r = rand_randomise_base e base 0x4000 0xBFFF
      in (r, cur\<lparr>base_reachable_time := base,
                 reachable_time_ttl := REACHABLE_TIME_UPDATE_SECONDS,
                 ipv6_neighbour_cache := (ipv6_neighbour_cache cur)\<lparr>reachable_time := r\<rparr>\<rparr>))"

text \<open>
  \<open>update_reachable_time\<close>: the 16-bit time to live is compared with the C \<open>int\<close>
  \<open>seconds\<close> as integers, and the difference is stored back into 16 bits.
\<close>

definition update_reachable_time :: "env \<Rightarrow> int \<Rightarrow> stack \<Rightarrow> stack" where
  "update_reachable_time e seconds st =
     (let cur = cur_if st
      in if uint (reachable_time_ttl cur) > seconds
         then st\<lparr>cur_if := cur\<lparr>reachable_time_ttl :=
                   word_of_int (uint (reachable_time_ttl cur) - seconds)\<rparr>\<rparr>
         else st\<lparr>cur_if := snd (protocol_stack_interface_set_reachable_time e cur
                                   (base_reachable_time cur))\<rparr>)"

section \<open>Runs of the error responder under the refill timer\<close>

text \<open>
  The event loop interleaves calls of \<open>icmp_fast_timer\<close> with requests to
  \<open>icmpv6_error\<close>. A run takes the events in order and collects the error packets that
  were returned for transmission.
\<close>

datatype event = Timer_ticks int | Error_request buffer u8 u8 u32

fun run_events :: "env \<Rightarrow> stack \<Rightarrow> event list \<Rightarrow> buffer list \<times> stack" where
  "run_events e st [] = ([], st)"
| "run_events e st (Timer_ticks n # evs) = run_events e (icmp_fast_timer n st) evs"
| "run_events e st (Error_request buf etype ecode aux # evs) =
     (case icmpv6_error e st buf etype ecode aux of
        (sent, st1) \<Rightarrow>
          (case run_events e st1 evs of
             (pkts, st2) \<Rightarrow> ((case sent of None \<Rightarrow> [] | Some pkt \<Rightarrow> [pkt]) @ pkts, st2)))"

fun ticks_of :: "event \<Rightarrow> int" where
  "ticks_of (Timer_ticks n) = n"
| "ticks_of (Error_request buf etype ecode aux) = 0"

definition elapsed_ticks :: "event list \<Rightarrow> int" where
  "elapsed_ticks evs = sum_list (map ticks_of evs)"

text \<open>
  Modelled from the spec: the timer table that calls \<open>icmp_fast_timer\<close> is not under
  src/. The refill rate is 10 tokens per second and a tick adds one token, so a tick is
  100 ms and a window of events lasts at most a second when it holds at most ten ticks.
\<close>

definition ICMP_FAST_TICK_MS :: int where
  "ICMP_FAST_TICK_MS = 100"

definition elapsed_ms :: "event list \<Rightarrow> int" where
  "elapsed_ms evs = ICMP_FAST_TICK_MS * elapsed_ticks evs"

section \<open>What the handlers read from a message\<close>

text \<open>
  The solicitation handler takes the target from octets 4 to 19 of the message and the
  option area from octet 20 on, through the reader; the advertisement handler takes the
  flags from octet 0 and the target from octets 4 to 19 by pointer.
\<close>

definition ns_target :: "buffer \<Rightarrow> octets" where
  "ns_target buf =
     fst (iobuf_pop_data (snd (iobuf_pop_data_ptr \<lparr>data = buf_data buf, cnt = 0, err = False\<rparr> 4)) 16)"

definition ns_opts :: "buffer \<Rightarrow> octets" where
  "ns_opts buf =
     iobuf_ptr (snd (iobuf_pop_data
       (snd (iobuf_pop_data_ptr \<lparr>data = buf_data buf, cnt = 0, err = False\<rparr> 4)) 16))"

definition na_flags :: "buffer \<Rightarrow> u8" where
  "na_flags buf = buf_data buf ! 0"

definition na_target :: "buffer \<Rightarrow> octets" where
  "na_target buf = take 16 (drop 4 (buf_data buf))"

text \<open>The advertisement a solicitation handler call hands back for transmission, if any.\<close>

definition ns_reply_of :: "(buffer option \<times> stack) outcome option \<Rightarrow> buffer option" where
  "ns_reply_of r = (case r of Some (Returned (Some na, st)) \<Rightarrow> Some na | _ \<Rightarrow> None)"

section \<open>A sample node and sample packets\<close>

text \<open>
  A node with link-local address fe80::2 and EUI-64 02:11:22:33:44:55:66:77, one
  neighbour fe80::3 in its cache, a full token bucket, and collaborators that always
  find a route, a buffer and a source address. The registration handler of the sample
  accepts every registration and echoes the option with status 0.
\<close>

definition our_ll :: octets where
  "our_ll = [0xfe, 0x80, 0, 0, 0, 0, 0, 0, 0, 0, 0, 0, 0, 0, 0, 2]"

definition peer_ll :: octets where
  "peer_ll = [0xfe, 0x80, 0, 0, 0, 0, 0, 0, 0, 0, 0, 0, 0, 0, 0, 1]"

definition solicited_node_2 :: octets where
  "solicited_node_2 = [0xff, 0x02, 0, 0, 0, 0, 0, 0, 0, 0, 0, 0x01, 0xff, 0, 0, 2]"

definition sample_eui64 :: octets where
  "sample_eui64 = [0x02, 0x11, 0x22, 0x33, 0x44, 0x55, 0x66, 0x77]"

definition sample_env :: env where
  "sample_env =
     \<lparr>addr_interface_address_compare = (\<lambda>c a. if a \<in> set (ip_addresses c) then 0 else -1),
      addr_is_assigned_to_interface = (\<lambda>c a. a \<in> set (ip_addresses c)),
      addr_get_entry = (\<lambda>c a. a \<in> set (ip_addresses c)),
      addr_select_source = (\<lambda>c d. case ip_addresses c of [] \<Rightarrow> None | a # _ \<Rightarrow> Some a),
      addr_interface_get_ll_address = (\<lambda>c. case ip_addresses c of [] \<Rightarrow> None | a # _ \<Rightarrow> Some a),
      buffer_turnaround = (\<lambda>b. b\<lparr>info := (info b)\<lparr>dir := B_DIR_DOWN\<rparr>\<rparr>),
      ipv6_buffer_route = (\<lambda>b. Some b),
      ipv6_max_unfragmented_payload = (\<lambda>b. 1240),
      buffer_alloc_ok = True,
      if_llao_parse = (\<lambda>c opt sa. (1, \<lparr>addr_type = ADDR_802_15_4_LONG, address = take 8 (drop 2 opt)\<rparr>)),
      if_llao_write = (\<lambda>c t must ip. [t, 2] @ mac c @ replicate 6 0),
      nd_ns_earo_handler = (\<lambda>st earo sllao src tgt.
         (True,
          \<lparr>status = 0, opaque = earo ! 3, earo_i = 0, earo_r = False, earo_t = False,
           tid = earo ! 5, lifetime = word_of_nat (read_be16 (drop 6 earo)),
           eui64 = take 8 (drop 8 earo), present = True\<rparr>,
          st)),
      ipv6_neighbour_update_unsolicited = (\<lambda>c a t l. c),
      ipv6_neighbour_update_from_na = (\<lambda>c i f t l. c),
      ws_common_negative_aro_mark = (\<lambda>c eui. True),
      rand_randomise_base = (\<lambda>b lo hi. b)\<rparr>"

definition sample_if :: net_if where
  "sample_if =
     \<lparr>ip_addresses = [our_ll],
      ipv6_neighbour_cache =
        \<lparr>recv_addr_reg = True, omit_na_aro_success = False, omit_na = False,
         reachable_time = 30000,
         neighbour_list =
           [\<lparr>ip_address = [0xfe, 0x80, 0, 0, 0, 0, 0, 0, 0, 0, 0, 0, 0, 0, 0, 3],
             ll_type = ADDR_802_15_4_LONG, ll_address = [2, 0, 0, 0, 0, 0, 0, 3],
             state = IP_NEIGHBOUR_STALE\<rparr>]\<rparr>,
      icmp_tokens = 10, cur_hop_limit = 64, reachable_time_ttl = 600,
      base_reachable_time = 30000, mac = sample_eui64\<rparr>"

definition sample_stack :: stack where
  "sample_stack = \<lparr>cur_if = sample_if, stats_ip_rx_drop = 0, ws_log = []\<rparr>"

definition empty_bucket_stack :: stack where
  "empty_bucket_stack = sample_stack\<lparr>cur_if := sample_if\<lparr>icmp_tokens := 0\<rparr>\<rparr>"

text \<open>A received packet: source, destination, hop limit and the octets at the data pointer.\<close>

definition rx_buffer :: "octets \<Rightarrow> octets \<Rightarrow> u8 \<Rightarrow> octets \<Rightarrow> buffer" where
  "rx_buffer s d hl p =
     \<lparr>options = \<lparr>hop_limit = hl, type = 0, code = 0, traffic_class = 0,
                  ll_security_bypass_rx = False, ll_broadcast_rx = False,
                  ll_multicast_rx = False\<rparr>,
      src_sa = \<lparr>addr_type = ADDR_IPV6, address = s\<rparr>,
      dst_sa = \<lparr>addr_type = ADDR_IPV6, address = d\<rparr>,
      info = \<lparr>dir = B_DIR_UP, from_layer = B_LAYER_NONE, to_layer = B_LAYER_IPV6\<rparr>,
      buf_data = p, ack_cb_of = None, route_next_hop = None\<rparr>"

text \<open>
  Offending packets for the error responder: a UDP datagram from fe80::1 to us, the same
  sent to the all-nodes group, the same from the unspecified address, the same received
  with the link-layer security bypass, and an ICMPv6 Destination Unreachable behind a
  hop-by-hop header.
\<close>

definition udp_pkt :: octets where
  "udp_pkt = [0x60, 0, 0, 0, 0, 8, 17, 64] @ peer_ll @ our_ll
             @ [0x12, 0x34, 0x56, 0x78, 0, 8, 0, 0]"

definition icmp_err_pkt :: octets where
  "icmp_err_pkt = [0x60, 0, 0, 0, 0, 16, 0, 64] @ peer_ll @ our_ll
                  @ [58, 0, 0, 0, 0, 0, 0, 0] @ [1, 0, 0, 0, 0, 0, 0, 0]"

definition udp_buf :: buffer where
  "udp_buf = rx_buffer peer_ll our_ll 64 udp_pkt"

definition icmp_err_buf :: buffer where
  "icmp_err_buf = rx_buffer peer_ll our_ll 64 icmp_err_pkt"

definition mc_buf :: buffer where
  "mc_buf = rx_buffer peer_ll ADDR_LINK_LOCAL_ALL_NODES 64 udp_pkt"

definition unspec_buf :: buffer where
  "unspec_buf = rx_buffer ADDR_UNSPECIFIED our_ll 64 udp_pkt"

definition bypass_buf :: buffer where
  "bypass_buf = udp_buf\<lparr>options := (options udp_buf)\<lparr>ll_security_bypass_rx := True\<rparr>\<rparr>"

text \<open>
  Ten error requests against a full bucket, one timer tick, and an eleventh request: a
  window of 100 ms.
\<close>

definition burst :: "event list" where
  "burst = replicate 10 (Error_request udp_buf 4 0 0)
           @ [Timer_ticks 1, Error_request udp_buf 4 0 0]"

text \<open>
  Solicitations: the registration of scenario S1 (source fe80::1, destination
  ff02::1:ff00:2, target fe80::2, registration option with lifetime 3600 and no source
  link-layer option); a solicitation with hop limit 64 whose option area starts with an
  option of type 5 and length 0; and two duplicate-address probes for fe80::2 from the
  unspecified address, one to the solicited-node group and one to the all-nodes group.
\<close>

definition ns_s1 :: buffer where
  "ns_s1 = rx_buffer peer_ll solicited_node_2 255
     ([0, 0, 0, 0] @ our_ll @ [33, 2, 0, 0, 0, 0, 0x0e, 0x10] @ sample_eui64)"

definition ns_hop64_zero_len :: buffer where
  "ns_hop64_zero_len = rx_buffer peer_ll solicited_node_2 64
     ([0, 0, 0, 0] @ our_ll @ [5, 0, 0, 0, 0, 0, 0, 0])"

definition ns_dad_solicited :: buffer where
  "ns_dad_solicited = rx_buffer ADDR_UNSPECIFIED solicited_node_2 255 ([0, 0, 0, 0] @ our_ll)"

definition ns_dad_all_nodes :: buffer where
  "ns_dad_all_nodes =
     rx_buffer ADDR_UNSPECIFIED ADDR_LINK_LOCAL_ALL_NODES 255 ([0, 0, 0, 0] @ our_ll)"

text \<open>The advertisement the sample node returns for \<open>ns_s1\<close>.\<close>

definition na_s1 :: buffer where
  "na_s1 =
     \<lparr>options = \<lparr>hop_limit = 255, type = 136, code = 0, traffic_class = 0,
                  ll_security_bypass_rx = False, ll_broadcast_rx = False,
                  ll_multicast_rx = False\<rparr>,
      src_sa = \<lparr>addr_type = ADDR_IPV6, address = our_ll\<rparr>,
      dst_sa = \<lparr>addr_type = ADDR_IPV6, address = peer_ll\<rparr>,
      info = \<lparr>dir = B_DIR_DOWN, from_layer = B_LAYER_ICMP, to_layer = B_LAYER_ICMP\<rparr>,
      buf_data = [0x60, 0, 0, 0] @ our_ll @ [2, 2] @ sample_eui64 @ [0, 0, 0, 0, 0, 0]
                 @ [33, 2, 0, 0, 0, 0, 0x0e, 0x10] @ sample_eui64,
      ack_cb_of = None, route_next_hop = Some peer_ll\<rparr>"

text \<open>
  Advertisements: one sent to the all-nodes group with the solicited flag set, one for
  the target fe80::1, which is not in the sample cache, and one with hop limit 64.
\<close>

definition na_mc_solicited :: buffer where
  "na_mc_solicited =
     rx_buffer peer_ll ADDR_LINK_LOCAL_ALL_NODES 255 ([0x40, 0, 0, 0] @ peer_ll)"

definition na_unknown :: buffer where
  "na_unknown = rx_buffer peer_ll our_ll 255
     ([0x60, 0, 0, 0] @ peer_ll @ [2, 2, 2, 0, 0, 0, 0, 0, 0, 1, 0, 0, 0, 0, 0, 0])"

definition na_hop64 :: buffer where
  "na_hop64 = rx_buffer peer_ll our_ll 64 ([0x60, 0, 0, 0] @ peer_ll)"

text \<open>A registration reply with status 1 (duplicate), and the advertisement built for it.\<close>

definition dup_earo :: ipv6_nd_opt_earo where
  "dup_earo = \<lparr>status = 1, opaque = 0, earo_i = 0, earo_r = False, earo_t = False, tid = 0,
               lifetime = 3600, eui64 = sample_eui64, present = True\<rparr>"

definition na_dup :: buffer where
  "na_dup =
     \<lparr>options = \<lparr>hop_limit = 255, type = 136, code = 0, traffic_class = 192,
                  ll_security_bypass_rx = False, ll_broadcast_rx = False,
                  ll_multicast_rx = False\<rparr>,
      src_sa = \<lparr>addr_type = ADDR_IPV6, address = our_ll\<rparr>,
      dst_sa = \<lparr>addr_type = ADDR_IPV6,
                 address = [0xfe, 0x80, 0, 0, 0, 0, 0, 0, 0x00, 0x11, 0x22, 0x33, 0x44, 0x55, 0x66, 0x77]\<rparr>,
      info = \<lparr>dir = B_DIR_DOWN, from_layer = B_LAYER_ICMP, to_layer = B_LAYER_ICMP\<rparr>,
      buf_data = [0x60, 0, 0, 0] @ our_ll @ [2, 2] @ sample_eui64 @ [0, 0, 0, 0, 0, 0]
                 @ [33, 2, 1, 0, 0, 0, 0x0e, 0x10] @ sample_eui64,
      ack_cb_of = Some ack_remove_neighbour_cb,
      route_next_hop = Some [0xfe, 0x80, 0, 0, 0, 0, 0, 0, 0x00, 0x11, 0x22, 0x33, 0x44, 0x55, 0x66, 0x77]\<rparr>"

text \<open>
  The advertisement built in answer to a duplicate-address probe for fe80::2, that is
  with the unspecified address as the source of the solicitation.
\<close>

definition na_dad :: buffer where
  "na_dad =
     \<lparr>options = \<lparr>hop_limit = 255, type = 136, code = 0, traffic_class = 0,
                  ll_security_bypass_rx = False, ll_broadcast_rx = False,
                  ll_multicast_rx = False\<rparr>,
      src_sa = \<lparr>addr_type = ADDR_IPV6, address = our_ll\<rparr>,
      dst_sa = \<lparr>addr_type = ADDR_IPV6, address = ADDR_LINK_LOCAL_ALL_NODES\<rparr>,
      info = \<lparr>dir = B_DIR_DOWN, from_layer = B_LAYER_ICMP, to_layer = B_LAYER_ICMP\<rparr>,
      buf_data = [0x20, 0, 0, 0] @ our_ll @ [2, 2] @ sample_eui64 @ [0, 0, 0, 0, 0, 0],
      ack_cb_of = None, route_next_hop = Some ADDR_LINK_LOCAL_ALL_NODES\<rparr>"

text \<open>The solicitation the sample node builds for the target fe80::1.\<close>

definition ns_built :: buffer where
  "ns_built =
     \<lparr>options = \<lparr>hop_limit = 255, type = 135, code = 0, traffic_class = 0,
                  ll_security_bypass_rx = False, ll_broadcast_rx = False,
                  ll_multicast_rx = False\<rparr>,
      src_sa = \<lparr>addr_type = ADDR_IPV6, address = our_ll\<rparr>,
      dst_sa = \<lparr>addr_type = ADDR_IPV6,
                 address = [0xff, 0x02, 0, 0, 0, 0, 0, 0, 0, 0, 0, 0x01, 0xff, 0, 0, 1]\<rparr>,
      info = \<lparr>dir = B_DIR_DOWN, from_layer = B_LAYER_ICMP, to_layer = B_LAYER_ICMP\<rparr>,
      buf_data = [0, 0, 0, 0] @ peer_ll,
      ack_cb_of = None,
      route_next_hop = Some [0xff, 0x02, 0, 0, 0, 0, 0, 0, 0, 0, 0, 0x01, 0xff, 0, 0, 1]\<rparr>"

section \<open>Facts about the error responder\<close>

text \<open>The recogniser only writes the type and code of the buffer's options.\<close>

lemma is_icmpv6_msg_frame:
  "src_sa (snd (is_icmpv6_msg buf)) = src_sa buf"
  "dst_sa (snd (is_icmpv6_msg buf)) = dst_sa buf"
  "ll_broadcast_rx (options (snd (is_icmpv6_msg buf))) = ll_broadcast_rx (options buf)"
  "ll_multicast_rx (options (snd (is_icmpv6_msg buf))) = ll_multicast_rx (options buf)"
  by (simp_all add: is_icmpv6_msg_def Let_def split: option.splits prod.splits)

text \<open>
  The four ways a call of the responder can end: nothing done; the receive drop counted
  and the packet freed; or, with a token in the bucket, the token spent and either no
  headroom or the error packet.
\<close>

lemma icmpv6_error_result:
  fixes e st buf etype ecode aux
  defines "st1 \<equiv> (if dir (info buf) = B_DIR_UP
                   then st\<lparr>stats_ip_rx_drop := stats_ip_rx_drop st + 1\<rparr> else st)"
  defines "st2 \<equiv> st1\<lparr>cur_if := (cur_if st)\<lparr>icmp_tokens := icmp_tokens (cur_if st) - 1\<rparr>\<rparr>"
  defines "r \<equiv> icmpv6_error e st buf etype ecode aux"
  shows "r = (None, st) \<or> r = (None, st1)
         \<or> (icmp_tokens (cur_if st) \<noteq> 0 \<and> (r = (None, st2) \<or> (\<exists>p. r = (Some p, st2))))"
proof -
  obtain is_icmp buf1 where m: "is_icmpv6_msg buf = (is_icmp, buf1)"
    by (cases "is_icmpv6_msg buf")
  have c1: "cur_if st1 = cur_if st" by (simp add: st1_def)
  show ?thesis
    unfolding r_def icmpv6_error_def Let_def m prod.case
    unfolding st1_def[symmetric]
    unfolding c1 st2_def[symmetric]
    by (simp split: option.split)
qed

lemma uint_minus_one:
  fixes w :: u16
  assumes "w \<noteq> 0"
  shows "uint (w - 1) + 1 = uint w"
proof -
  from assms have "0 < unat w" by (simp add: unat_gt_0)
  moreover from assms have "unat (w - 1) = unat w - 1" by (rule unat_minus_one)
  ultimately have "int (unat (w - 1)) + 1 = int (unat w)" by simp
  then show ?thesis by (simp only: uint_nat)
qed

text \<open>A call never leaves more tokens than it found, and an error packet costs one.\<close>

lemma icmpv6_error_tokens:
  "uint (icmp_tokens (cur_if (snd (icmpv6_error e st buf ty co aux))))
     + (if fst (icmpv6_error e st buf ty co aux) = None then 0 else 1)
   \<le> uint (icmp_tokens (cur_if st))"
  using icmpv6_error_result[of e st buf ty co aux] uint_minus_one[of "icmp_tokens (cur_if st)"]
  by (auto split: if_splits)

text \<open>The refill adds at most \<open>ticks\<close> tokens.\<close>

lemma icmp_fast_timer_le:
  assumes n: "0 \<le> n"
  shows "uint (icmp_tokens (cur_if (icmp_fast_timer n st))) \<le> uint (icmp_tokens (cur_if st)) + n"
proof -
  let ?t = "word_of_int (uint (icmp_tokens (cur_if st)) + n) :: u16"
  have "uint ?t = (uint (icmp_tokens (cur_if st)) + n) mod 2 ^ LENGTH(16)"
    by (rule uint_word_of_int)
  also have "\<dots> \<le> uint (icmp_tokens (cur_if st)) + n"
    using n by (simp add: zmod_le_nonneg_dividend)
  finally have t: "uint ?t \<le> uint (icmp_tokens (cur_if st)) + n" .
  show ?thesis
  proof (cases "?t > 10")
    case True
    then have "uint (10 :: u16) < uint ?t" by (simp add: word_less_def)
    with t True show ?thesis by (simp add: icmp_fast_timer_def Let_def)
  next
    case False
    with t show ?thesis by (simp add: icmp_fast_timer_def Let_def)
  qed
qed

lemma icmp_fast_timer_exact:
  assumes n: "0 \<le> n" and b: "uint (icmp_tokens (cur_if st)) + n < 65536"
  shows "uint (icmp_tokens (cur_if (icmp_fast_timer n st)))
         = min 10 (uint (icmp_tokens (cur_if st)) + n)"
proof -
  let ?t = "word_of_int (uint (icmp_tokens (cur_if st)) + n) :: u16"
  have "uint ?t = (uint (icmp_tokens (cur_if st)) + n) mod 2 ^ LENGTH(16)"
    by (rule uint_word_of_int)
  also have "\<dots> = uint (icmp_tokens (cur_if st)) + n"
    using n b by simp
  finally have t: "uint ?t = uint (icmp_tokens (cur_if st)) + n" .
  show ?thesis
  proof (cases "?t > 10")
    case True
    then have "uint (10 :: u16) < uint ?t" by (simp add: word_less_def)
    with t True show ?thesis by (simp add: icmp_fast_timer_def Let_def)
  next
    case False
    then have "uint ?t \<le> uint (10 :: u16)" by (simp add: word_less_def not_less)
    with t False show ?thesis by (simp add: icmp_fast_timer_def Let_def)
  qed
qed

text \<open>
  Over a run whose timer calls all pass a non-negative tick count, the error packets
  sent are bounded by the tokens at the start plus the ticks delivered.
\<close>

lemma run_events_bound:
  "\<forall>ev \<in> set evs. 0 \<le> ticks_of ev \<Longrightarrow>
   int (length (fst (run_events e st evs))) \<le> uint (icmp_tokens (cur_if st)) + elapsed_ticks evs"
proof (induction evs arbitrary: st)
  case Nil
  then show ?case by (simp add: elapsed_ticks_def)
next
  case (Cons ev evs)
  from Cons.prems have evs_ok: "\<forall>ev \<in> set evs. 0 \<le> ticks_of ev" and ev_ok: "0 \<le> ticks_of ev"
    by simp_all
  note ih = Cons.IH[OF evs_ok]
  have el: "elapsed_ticks (ev # evs) = ticks_of ev + elapsed_ticks evs"
    by (simp add: elapsed_ticks_def)
  show ?case
  proof (cases ev)
    case (Timer_ticks n)
    with ev_ok have n: "0 \<le> n" by simp
    have "int (length (fst (run_events e (icmp_fast_timer n st) evs)))
            \<le> uint (icmp_tokens (cur_if (icmp_fast_timer n st))) + elapsed_ticks evs"
      by (rule ih)
    also have "\<dots> \<le> uint (icmp_tokens (cur_if st)) + n + elapsed_ticks evs"
      using icmp_fast_timer_le[OF n, of st] by simp
    finally show ?thesis using el unfolding Timer_ticks by simp
  next
    case (Error_request buf ty co aux)
    obtain r st1 where r: "icmpv6_error e st buf ty co aux = (r, st1)"
      by (cases "icmpv6_error e st buf ty co aux")
    obtain pkts st2 where p: "run_events e st1 evs = (pkts, st2)"
      by (cases "run_events e st1 evs")
    from ih[of st1] p
    have ih': "int (length pkts) \<le> uint (icmp_tokens (cur_if st1)) + elapsed_ticks evs"
      by simp
    from icmpv6_error_tokens[of e st buf ty co aux] r
    have tk: "uint (icmp_tokens (cur_if st1)) + (if r = None then 0 else 1)
              \<le> uint (icmp_tokens (cur_if st))"
      by simp
    have "run_events e st (ev # evs) = ((case r of None \<Rightarrow> [] | Some pkt \<Rightarrow> [pkt]) @ pkts, st2)"
      unfolding Error_request by (simp add: r p)
    then show ?thesis using ih' tk el unfolding Error_request
      by (cases r) simp_all
  qed
qed

section \<open>Facts about the builders\<close>

lemma write_be32_flags: "write_be32 (push_bit 24 (ucast (f :: u8))) = [f, 0, 0, 0]"
proof -
  have a: "(ucast (drop_bit 24 (push_bit 24 (ucast f :: u32))) :: u8) = f"
    by (rule bit_word_eqI) (auto simp: bit_simps)
  have b: "(ucast (drop_bit 16 (push_bit 24 (ucast f :: u32))) :: u8) = 0"
    by (rule bit_word_eqI) (auto simp: bit_simps)
  have c: "(ucast (drop_bit 8 (push_bit 24 (ucast f :: u32))) :: u8) = 0"
    by (rule bit_word_eqI) (auto simp: bit_simps)
  have d: "(ucast (push_bit 24 (ucast f :: u32)) :: u8) = 0"
    by (rule bit_word_eqI) (auto simp: bit_simps)
  show ?thesis by (simp add: write_be32_def a b c d)
qed

text \<open>
  What an advertisement that was built looks like: hop limit, flag octet, destination
  and source.
\<close>

lemma icmpv6_build_na_SomeD:
  assumes "icmpv6_build_na e cur solicited override tllao_required target earo src_addr = Some na"
  shows "hop_limit (options na) = 255
    \<and> hd (buf_data na) = (if \<not> addr_is_ipv6_unspecified src_addr \<and> solicited
                             then (if override then NA_O else 0) OR NA_S
                             else (if override then NA_O else 0))
    \<and> address (dst_sa na) =
           (if addr_is_ipv6_unspecified src_addr then ADDR_LINK_LOCAL_ALL_NODES
            else case earo of None \<Rightarrow> src_addr
                 | Some ea \<Rightarrow> if status ea \<noteq> ARO_SUCCESS then ll_from_eui64 (eui64 ea)
                              else src_addr)
    \<and> (if addr_is_assigned_to_interface e cur target then Some target
         else addr_select_source e cur (address (dst_sa na))) = Some (address (src_sa na))"
proof -
  define flags where "flags = (if \<not> addr_is_ipv6_unspecified src_addr \<and> solicited
                             then (if override then NA_O else 0) OR NA_S
                             else (if override then NA_O else 0))"
  define dst where "dst = (if addr_is_ipv6_unspecified src_addr then ADDR_LINK_LOCAL_ALL_NODES
            else case earo of None \<Rightarrow> src_addr
                 | Some ea \<Rightarrow> if status ea \<noteq> ARO_SUCCESS then ll_from_eui64 (eui64 ea)
                              else src_addr)"
  define rest where "rest = target
                          @ if_llao_write e cur ICMPV6_OPT_TGT_LL_ADDR tllao_required target
                          @ (case earo of
                               None \<Rightarrow> []
                             | Some ea \<Rightarrow>
                                 [ICMPV6_OPT_ADDR_REGISTRATION, 2, status ea, opaque ea,
                                  earo_flags ea, tid ea]
                                 @ write_be16 (lifetime ea) @ take 8 (eui64 ea))"
  define negative where "negative = (case earo of
                                 None \<Rightarrow> False
                               | Some ea \<Rightarrow> status ea \<noteq> ARO_SUCCESS
                                            \<and> status ea \<noteq> ARO_TOPOLOGICALLY_INCORRECT)"
  define src_opt where "src_opt = (if addr_is_assigned_to_interface e cur target then Some target
                 else addr_select_source e cur dst)"
  define omitted where "omitted \<longleftrightarrow> (omit_na_aro_success (ipv6_neighbour_cache cur)
         \<and> (case earo of None \<Rightarrow> False
             | Some ea \<Rightarrow> \<not> (earo_r ea \<and> earo_t ea) \<and> status ea = ARO_SUCCESS))
      \<or> (\<not> tllao_required \<and> earo = None \<and> omit_na (ipv6_neighbour_cache cur))
      \<or> \<not> buffer_alloc_ok e"
  define marked where
    "marked = ws_common_negative_aro_mark e cur (case earo of Some ea \<Rightarrow> eui64 ea | None \<Rightarrow> [])"
  define tc where "tc = (if negative then push_bit IP_TCLASS_DSCP_SHIFT IP_DSCP_CS6
                                           else traffic_class (options buffer_get))"
  define cb where "cb = (if negative then Some ack_remove_neighbour_cb else None)"
  define mk where "mk src = buffer_get\<lparr>
                       options := (options buffer_get)\<lparr>
                         hop_limit := 255, type := ICMPV6_TYPE_INFO_NA, code := 0,
                         traffic_class := tc\<rparr>,
                       dst_sa := \<lparr>addr_type = ADDR_IPV6, address = dst\<rparr>,
                       src_sa := \<lparr>addr_type = ADDR_IPV6, address = src\<rparr>,
                       buf_data := [flags, 0, 0, 0] @ rest,
                       ack_cb_of := cb,
                       info := \<lparr>dir = B_DIR_DOWN, from_layer = B_LAYER_ICMP,
                                to_layer = B_LAYER_ICMP\<rparr>,
                       route_next_hop := Some dst\<rparr>" for src
  have unfold: "icmpv6_build_na e cur solicited override tllao_required target earo src_addr =
     (if omitted then None
      else case src_opt of None \<Rightarrow> None
           | Some src \<Rightarrow> if negative \<and> \<not> marked then None else Some (mk src))"
    unfolding icmpv6_build_na_def Let_def ipv6_buffer_route_to_def write_be32_flags mk_def
    unfolding flags_def[symmetric]
    unfolding dst_def[symmetric] rest_def[symmetric] negative_def[symmetric]
    unfolding src_opt_def[symmetric] marked_def[symmetric] tc_def[symmetric] cb_def[symmetric]
    by (simp add: omitted_def)
  from assms[unfolded unfold] obtain src where s: "src_opt = Some src" and na: "na = mk src"
    by (auto split: if_splits option.splits)
  have f: "hop_limit (options na) = 255" "hd (buf_data na) = flags" "address (dst_sa na) = dst"
       "address (src_sa na) = src"
    by (simp_all add: na mk_def)
  have "(if addr_is_assigned_to_interface e cur target then Some target
         else addr_select_source e cur dst) = Some src"
    using s by (simp only: src_opt_def)
  then show ?thesis
    unfolding f unfolding flags_def dst_def by simp
qed

lemma icmpv6_build_ns_hop_limit:
  "icmpv6_build_ns e cur tgt prompt unicast unspec aro = Returned (Some b) \<Longrightarrow>
   hop_limit (options b) = 255"
  unfolding icmpv6_build_ns_def Let_def ipv6_buffer_route_to_def
  by (auto split: option.splits if_splits)

section \<open>Facts about the option scans\<close>

text \<open>
  A chain that passes validation is scanned to the end: after validation the scan
  returns.
\<close>

lemma option_get_loop_returns:
  "icmpv6_nd_options_validate_loop input \<Longrightarrow> icmpv6_nd_option_get_loop input opt \<noteq> None"
proof (induction input rule: icmpv6_nd_options_validate_loop.induct)
  case (1 input)
  show ?case
  proof (cases "iobuf_remaining_size input = 0")
    case True
    then show ?thesis by (subst icmpv6_nd_option_get_loop.simps) simp
  next
    case False
    let ?len = "8 * unat (fst (iobuf_pop_u8 (snd (iobuf_pop_u8 input))))"
    let ?next = "snd (iobuf_pop_data_ptr
                   ((snd (iobuf_pop_u8 (snd (iobuf_pop_u8 input))))\<lparr>cnt := cnt input\<rparr>) ?len)"
    from "1.prems" False have "?len \<noteq> 0 \<and> icmpv6_nd_options_validate_loop ?next"
      by (subst (asm) icmpv6_nd_options_validate_loop.simps) (simp add: Let_def split: if_splits)
    then have len: "?len \<noteq> 0" and v: "icmpv6_nd_options_validate_loop ?next" by simp_all
    from "1.IH"[OF False refl refl refl refl len v]
    have "icmpv6_nd_option_get_loop ?next opt \<noteq> None" .
    then show ?thesis using False
      by (subst icmpv6_nd_option_get_loop.simps) (simp add: Let_def)
  qed
qed

lemma find_option_returns:
  assumes "icmpv6_options_well_formed_in_buffer buf off"
  shows "icmpv6_find_option_in_buffer buf off opt \<noteq> None"
proof -
  from assms
  have "icmpv6_nd_options_validate_loop \<lparr>data = drop off (buf_data buf), cnt = 0, err = False\<rparr>"
    by (simp add: icmpv6_options_well_formed_in_buffer_def icmpv6_nd_options_validate_def
             split: if_splits)
  from option_get_loop_returns[OF this] show ?thesis
    by (simp add: icmpv6_find_option_in_buffer_def icmpv6_nd_option_get_def)
qed

text \<open>
  An option of length zero that is not the one looked for stops the scan from ever
  returning: each round ends at the cursor it started from.
\<close>

lemma option_get_loop_spins:
  assumes "icmpv6_nd_option_get_loop input opt' = Some y" and "t \<noteq> opt"
  shows "\<not> (input = \<lparr>data = t # 0 # rest, cnt = 0, err = False\<rparr> \<and> opt' = opt)"
  using assms(1)
proof (induction input opt' y
    rule: icmpv6_nd_option_get_loop.raw_induct[rotated 1, consumes 1, case_names step])
  case (step f input opt' y)
  show ?case
  proof
    assume a: "input = \<lparr>data = t # 0 # rest, cnt = 0, err = False\<rparr> \<and> opt' = opt"
    have "f \<lparr>data = t # 0 # rest, cnt = 0, err = False\<rparr> opt = Some y"
      using step(2) a assms(2)
      by (simp add: Let_def iobuf_remaining_size_def iobuf_pop_u8_def iobuf_pop_data_ptr_def)
    from step(1)[OF this] show False by simp
  qed
qed

lemma option_get_zero_length_spins:
  "t \<noteq> opt \<Longrightarrow> icmpv6_nd_option_get (t # 0 # rest) opt = None"
  unfolding icmpv6_nd_option_get_def
  using option_get_loop_spins[of "\<lparr>data = t # 0 # rest, cnt = 0, err = False\<rparr>" opt _ t opt rest]
  by (cases "icmpv6_nd_option_get_loop \<lparr>data = t # 0 # rest, cnt = 0, err = False\<rparr> opt") auto

section \<open>Facts about the two handlers\<close>

text \<open>The solicitation handler does not return when its first scan does not.\<close>

lemma icmpv6_ns_handler_scan_spins:
  "icmpv6_nd_option_get (ns_opts buf) ICMPV6_OPT_SRC_LL_ADDR = None \<Longrightarrow>
   icmpv6_ns_handler e st buf = None"
  by (simp add: icmpv6_ns_handler_def ns_opts_def Let_def)

text \<open>
  When the solicitation handler returns with a hop limit other than 255, the packet was
  dropped and the state is the one it was called with.
\<close>

lemma icmpv6_ns_handler_hop_limit:
  assumes "hop_limit (options buf) \<noteq> 255"
  shows "icmpv6_ns_handler e st buf = None \<or> icmpv6_ns_handler e st buf = Some Fault
         \<or> icmpv6_ns_handler e st buf = Some (Returned (None, st))"
  using assms
  by (simp add: icmpv6_ns_handler_def Let_def split: option.split outcome.split prod.split)

text \<open>
  A solicitation from the unspecified address to a solicited-node group is never
  answered.
\<close>

lemma icmpv6_ns_handler_dad_solicited:
  assumes "addr_is_ipv6_unspecified (address (src_sa buf))"
      and "take 13 (address (dst_sa buf)) = ADDR_MULTICAST_SOLICITED"
  shows "icmpv6_ns_handler e st buf = None \<or> icmpv6_ns_handler e st buf = Some Fault
         \<or> icmpv6_ns_handler e st buf = Some (Returned (None, st))"
  using assms
  by (simp add: icmpv6_ns_handler_def Let_def split: option.split outcome.split prod.split)

text \<open>
  An advertisement returned by the solicitation handler was built with the solicited
  argument set, the override argument set exactly when the target is an address of the
  interface, and the source of the solicitation.
\<close>

lemma icmpv6_ns_handler_reply:
  assumes "icmpv6_ns_handler e st buf = Some (Returned (Some na, st'))"
  shows "\<exists>cur' tl earo. icmpv6_build_na e cur' True
            (addr_interface_address_compare e (cur_if st) (ns_target buf) = 0) tl
            (ns_target buf) earo (address (src_sa buf)) = Some na"
  using assms
  unfolding icmpv6_ns_handler_def Let_def ns_target_def[symmetric]
  by (auto split: option.splits outcome.splits prod.splits if_splits)

lemma icmpv6_na_wisun_aro_handler_cur_if:
  "cur_if (icmpv6_na_wisun_aro_handler st a s) = cur_if st"
  by (simp add: icmpv6_na_wisun_aro_handler_def Let_def ws_common_aro_failure_def
        ws_common_black_list_neighbour_def)

lemma icmpv6_na_handler_hop_limit:
  "hop_limit (options buf) \<noteq> 255 \<Longrightarrow> icmpv6_na_handler e st buf = Some (None, st)"
  by (simp add: icmpv6_na_handler_def)

section \<open>Facts about the reachable-time timer\<close>

text \<open>
  A change of the base value rerolls: the base and the time to live of 600 seconds are
  stored, and the reachable time is what the generator returns for the factors 0x4000
  and 0xBFFF.
\<close>

lemma set_reachable_time_rerolls:
  "snd (protocol_stack_interface_set_reachable_time e cur base) =
     cur\<lparr>base_reachable_time := base, reachable_time_ttl := 600,
         ipv6_neighbour_cache := (ipv6_neighbour_cache cur)\<lparr>reachable_time :=
            rand_randomise_base e base 0x4000 0xBFFF\<rparr>\<rparr>"
  by (simp add: protocol_stack_interface_set_reachable_time_def Let_def
        REACHABLE_TIME_UPDATE_SECONDS_def)

lemma update_reachable_time_step:
  "cur_if (update_reachable_time e seconds st) =
     (if uint (reachable_time_ttl (cur_if st)) > seconds
      then (cur_if st)\<lparr>reachable_time_ttl :=
              word_of_int (uint (reachable_time_ttl (cur_if st)) - seconds)\<rparr>
      else (cur_if st)\<lparr>reachable_time_ttl := 600,
         ipv6_neighbour_cache := (ipv6_neighbour_cache (cur_if st))\<lparr>reachable_time :=
            rand_randomise_base e (base_reachable_time (cur_if st)) 0x4000 0xBFFF\<rparr>\<rparr>)"
  by (simp add: update_reachable_time_def protocol_stack_interface_set_reachable_time_def
        Let_def REACHABLE_TIME_UPDATE_SECONDS_def)

text \<open>
  With the timer called once a second after a reroll, the first 599 calls only count
  down, and the 600th rerolls.
\<close>

lemma update_reachable_time_countdown:
  assumes "reachable_time_ttl (cur_if st) = 600" and "k < 600"
  shows "uint (reachable_time_ttl (cur_if (((update_reachable_time e 1) ^^ k) st))) = 600 - int k
       \<and> ipv6_neighbour_cache (cur_if (((update_reachable_time e 1) ^^ k) st))
           = ipv6_neighbour_cache (cur_if st)
       \<and> base_reachable_time (cur_if (((update_reachable_time e 1) ^^ k) st))
           = base_reachable_time (cur_if st)"
  using assms(2)
proof (induction k)
  case 0
  then show ?case using assms(1) by simp
next
  case (Suc k)
  let ?s = "((update_reachable_time e 1) ^^ k) st"
  let ?t = "reachable_time_ttl (cur_if ?s)"
  from Suc have ih: "uint ?t = 600 - int k"
    "ipv6_neighbour_cache (cur_if ?s) = ipv6_neighbour_cache (cur_if st)"
    "base_reachable_time (cur_if ?s) = base_reachable_time (cur_if st)"
    by simp_all
  from ih(1) Suc.prems have gt: "uint ?t > 1" by simp
  then have nz: "?t \<noteq> 0" by auto
  have w: "(word_of_int (uint ?t - 1) :: u16) = ?t - 1" by simp
  have step: "cur_if (update_reachable_time e 1 ?s) = (cur_if ?s)\<lparr>reachable_time_ttl := ?t - 1\<rparr>"
    using gt by (simp only: update_reachable_time_step w if_True)
  have "uint (?t - 1) = 600 - int (Suc k)"
    using uint_minus_one[OF nz] ih(1) by simp
  then show ?case
    using ih(2,3) by (simp add: step)
qed

lemma update_reachable_time_rerolls_at_600:
  assumes "reachable_time_ttl (cur_if st) = 600"
  shows "cur_if (((update_reachable_time e 1) ^^ 600) st) =
     (cur_if (((update_reachable_time e 1) ^^ 599) st))\<lparr>reachable_time_ttl := 600,
         ipv6_neighbour_cache := (ipv6_neighbour_cache (cur_if st))\<lparr>reachable_time :=
            rand_randomise_base e (base_reachable_time (cur_if st)) 0x4000 0xBFFF\<rparr>\<rparr>"
proof -
  let ?s = "((update_reachable_time e 1) ^^ 599) st"
  have "(600 :: nat) = Suc 599" by simp
  then have f: "((update_reachable_time e 1) ^^ 600) st = update_reachable_time e 1 ?s"
    by (simp only: funpow.simps o_apply)
  from update_reachable_time_countdown[OF assms, of 599 e]
  have c: "uint (reachable_time_ttl (cur_if ?s)) = 1"
    "ipv6_neighbour_cache (cur_if ?s) = ipv6_neighbour_cache (cur_if st)"
    "base_reachable_time (cur_if ?s) = base_reachable_time (cur_if st)"
    by simp_all
  show ?thesis
    unfolding f update_reachable_time_step using c by simp
qed

section \<open>The claims\<close>

text \<open>
  C9. A packet received with the link-layer security bypass never gets an ICMPv6 error:
  \<open>icmpv6_error\<close> frees it and returns nothing, whatever the requested type and code
  and whatever the bucket holds, and it does so before anything else: the whole state,
  receive-drop statistic and token count included, is the one the call started with.
\<close>

theorem icmpv6_error_security_bypass:
  "ll_security_bypass_rx (options buf) \<Longrightarrow> icmpv6_error e st buf etype ecode aux = (None, st)"
  by (simp add: icmpv6_error_def)

theorem icmpv6_error_security_bypass_witness:
  "ll_security_bypass_rx (options bypass_buf)
   \<and> icmpv6_error sample_env sample_stack bypass_buf 1 0 0 = (None, sample_stack)
   \<and> icmpv6_error sample_env empty_bucket_stack bypass_buf 2 0 1280 = (None, empty_bucket_stack)"
proof -
  have h: "ll_security_bypass_rx (options bypass_buf)"
    by (simp add: bypass_buf_def)
  from icmpv6_error_security_bypass[OF h, of sample_env sample_stack 1 0 0]
       icmpv6_error_security_bypass[OF h, of sample_env empty_bucket_stack 2 0 1280] h
  show ?thesis by simp
qed

text \<open>
  C2. \<open>icmpv6_error\<close> sends no error in reply to a packet that it recognises as an
  ICMPv6 error (type below 128) or a Redirect; none in reply to a packet whose IP
  destination is multicast or that came in as a link-layer broadcast or multicast,
  unless the requested error is Packet Too Big or Parameter Problem with code
  "unrecognised IPv6 option"; and none when the source of the packet is unspecified or
  multicast. In each case the packet is freed, nothing is returned, and the interface,
  its token count included, is left as it was.
\<close>

theorem icmpv6_error_rfc4443_rules:
  assumes "(fst (is_icmpv6_msg buf)
            \<and> (type (options (snd (is_icmpv6_msg buf))) < 128
                \<or> type (options (snd (is_icmpv6_msg buf))) = ICMPV6_TYPE_INFO_REDIRECT))
   \<or> ((addr_is_ipv6_multicast (address (dst_sa buf)) \<or> ll_broadcast_rx (options buf)
        \<or> ll_multicast_rx (options buf))
       \<and> \<not> (etype = ICMPV6_TYPE_ERROR_PACKET_TOO_BIG
              \<or> (etype = ICMPV6_TYPE_ERROR_PARAMETER_PROBLEM
                  \<and> ecode = ICMPV6_CODE_PARAM_PRB_UNREC_IPV6_OPT)))
   \<or> addr_is_ipv6_unspecified (address (src_sa buf))
   \<or> addr_is_ipv6_multicast (address (src_sa buf))"
  shows "fst (icmpv6_error e st buf etype ecode aux) = None
         \<and> cur_if (snd (icmpv6_error e st buf etype ecode aux)) = cur_if st"
proof -
  obtain is_icmp buf1 where m: "is_icmpv6_msg buf = (is_icmp, buf1)"
    by (cases "is_icmpv6_msg buf")
  with is_icmpv6_msg_frame[of buf] have fr: "src_sa buf1 = src_sa buf" "dst_sa buf1 = dst_sa buf"
     "ll_broadcast_rx (options buf1) = ll_broadcast_rx (options buf)"
     "ll_multicast_rx (options buf1) = ll_multicast_rx (options buf)" by simp_all
  define st1 where "st1 = (if dir (info buf) = B_DIR_UP
                           then st\<lparr>stats_ip_rx_drop := stats_ip_rx_drop st + 1\<rparr> else st)"
  have c1: "cur_if st1 = cur_if st" by (simp add: st1_def)
  let ?drop = "icmpv6_error e st buf etype ecode aux = (None, st)
               \<or> icmpv6_error e st buf etype ecode aux = (None, st1)"
  have d1: ?drop
    if "is_icmp \<and> (type (options buf1) < 128 \<or> type (options buf1) = ICMPV6_TYPE_INFO_REDIRECT)"
    using that
    unfolding icmpv6_error_def Let_def m prod.case
    unfolding st1_def[symmetric] fr
    by simp
  have d2: ?drop
    if "(addr_is_ipv6_multicast (address (dst_sa buf)) \<or> ll_broadcast_rx (options buf)
         \<or> ll_multicast_rx (options buf))
        \<and> \<not> (etype = ICMPV6_TYPE_ERROR_PACKET_TOO_BIG
               \<or> (etype = ICMPV6_TYPE_ERROR_PARAMETER_PROBLEM
                   \<and> ecode = ICMPV6_CODE_PARAM_PRB_UNREC_IPV6_OPT))"
    using that
    unfolding icmpv6_error_def Let_def m prod.case
    unfolding st1_def[symmetric] fr
    by simp
  have d3: ?drop
    if "addr_is_ipv6_unspecified (address (src_sa buf))
        \<or> addr_is_ipv6_multicast (address (src_sa buf))"
    using that
    unfolding icmpv6_error_def Let_def m prod.case
    unfolding st1_def[symmetric] fr
    by simp
  from assms d1 d2 d3 have ?drop unfolding m fst_conv snd_conv by blast
  then show ?thesis using c1 by auto
qed

theorem icmpv6_error_rfc4443_rules_witness:
  "fst (is_icmpv6_msg icmp_err_buf)
   \<and> type (options (snd (is_icmpv6_msg icmp_err_buf))) < 128
   \<and> fst (icmpv6_error sample_env sample_stack icmp_err_buf 1 0 0) = None
   \<and> addr_is_ipv6_multicast (address (dst_sa mc_buf))
   \<and> fst (icmpv6_error sample_env sample_stack mc_buf 1 0 0) = None
   \<and> addr_is_ipv6_unspecified (address (src_sa unspec_buf))
   \<and> fst (icmpv6_error sample_env sample_stack unspec_buf 1 0 0) = None"
proof -
  have h1: "fst (is_icmpv6_msg icmp_err_buf)
            \<and> type (options (snd (is_icmpv6_msg icmp_err_buf))) < 128"
    by code_simp
  have h2: "addr_is_ipv6_multicast (address (dst_sa mc_buf))
            \<and> \<not> ((1 :: u8) = ICMPV6_TYPE_ERROR_PACKET_TOO_BIG
                   \<or> ((1 :: u8) = ICMPV6_TYPE_ERROR_PARAMETER_PROBLEM
                       \<and> (0 :: u8) = ICMPV6_CODE_PARAM_PRB_UNREC_IPV6_OPT))"
    by code_simp
  have h3: "addr_is_ipv6_unspecified (address (src_sa unspec_buf))"
    by code_simp
  from h1 have r1: "fst (icmpv6_error sample_env sample_stack icmp_err_buf 1 0 0) = None"
    using icmpv6_error_rfc4443_rules[of icmp_err_buf 1 0 sample_env sample_stack 0] by blast
  from h2 have r2: "fst (icmpv6_error sample_env sample_stack mc_buf 1 0 0) = None"
    using icmpv6_error_rfc4443_rules[of mc_buf 1 0 sample_env sample_stack 0] by blast
  from h3 have r3: "fst (icmpv6_error sample_env sample_stack unspec_buf 1 0 0) = None"
    using icmpv6_error_rfc4443_rules[of unspec_buf 1 0 sample_env sample_stack 0] by blast
  from h1 h2 h3 r1 r2 r3 show ?thesis by blast
qed

text \<open>
  C1, as amended. The token bucket has capacity 10: \<open>icmp_fast_timer\<close> never leaves more
  than 10 tokens, and it adds one token per tick up to that cap. Every error packet
  \<open>icmpv6_error\<close> returns costs one token, and a request made while the bucket holds no
  token returns nothing and leaves the interface as it is. Hence over any run of events
  the error packets sent number at most the tokens held at the start plus the ticks
  delivered during the run; with at most 10 tokens at the start and at most ten ticks
  of 100 ms, that is at most 20 in a window of one second. The bound of 10 holds between
  two refills, not over a second.
\<close>

theorem icmp_token_bucket:
  "icmp_tokens (cur_if (icmp_fast_timer n st)) \<le> 10
   \<and> (0 \<le> n \<and> uint (icmp_tokens (cur_if st)) + n < 65536 \<longrightarrow>
        uint (icmp_tokens (cur_if (icmp_fast_timer n st)))
        = min 10 (uint (icmp_tokens (cur_if st)) + n))
   \<and> (fst (icmpv6_error e st1 buf1 ty1 co1 aux1) \<noteq> None \<longrightarrow>
        icmp_tokens (cur_if st1) \<noteq> 0
        \<and> icmp_tokens (cur_if (snd (icmpv6_error e st1 buf1 ty1 co1 aux1)))
          = icmp_tokens (cur_if st1) - 1)
   \<and> (icmp_tokens (cur_if st0) = 0 \<longrightarrow>
        fst (icmpv6_error e st0 buf0 ty0 co0 aux0) = None
        \<and> cur_if (snd (icmpv6_error e st0 buf0 ty0 co0 aux0)) = cur_if st0)
   \<and> ((\<forall>ev \<in> set evs. 0 \<le> ticks_of ev) \<longrightarrow>
        int (length (fst (run_events e st2 evs)))
        \<le> uint (icmp_tokens (cur_if st2)) + elapsed_ticks evs)
   \<and> ((\<forall>ev \<in> set evs. 0 \<le> ticks_of ev) \<and> icmp_tokens (cur_if st2) \<le> 10
        \<and> elapsed_ms evs \<le> 1000 \<longrightarrow>
        length (fst (run_events e st2 evs)) \<le> 20)"
proof -
  have cap: "icmp_tokens (cur_if (icmp_fast_timer n st)) \<le> 10"
    by (simp add: icmp_fast_timer_def Let_def not_less)
  have emit: "icmp_tokens (cur_if st1) \<noteq> 0
        \<and> icmp_tokens (cur_if (snd (icmpv6_error e st1 buf1 ty1 co1 aux1)))
          = icmp_tokens (cur_if st1) - 1"
    if "fst (icmpv6_error e st1 buf1 ty1 co1 aux1) \<noteq> None"
    using that icmpv6_error_result[of e st1 buf1 ty1 co1 aux1] by (auto split: if_splits)
  have zero: "fst (icmpv6_error e st0 buf0 ty0 co0 aux0) = None
        \<and> cur_if (snd (icmpv6_error e st0 buf0 ty0 co0 aux0)) = cur_if st0"
    if "icmp_tokens (cur_if st0) = 0"
    using that icmpv6_error_result[of e st0 buf0 ty0 co0 aux0] by (auto split: if_splits)
  have second: "length (fst (run_events e st2 evs)) \<le> 20"
    if ok: "\<forall>ev \<in> set evs. 0 \<le> ticks_of ev" and full: "icmp_tokens (cur_if st2) \<le> 10"
      and win: "elapsed_ms evs \<le> 1000"
  proof -
    from full have "uint (icmp_tokens (cur_if st2)) \<le> uint (10 :: u16)"
      by (simp only: word_le_def)
    then have "uint (icmp_tokens (cur_if st2)) \<le> 10" by simp
    moreover from win have "elapsed_ticks evs \<le> 10"
      by (simp add: elapsed_ms_def ICMP_FAST_TICK_MS_def)
    ultimately show ?thesis using run_events_bound[OF ok, of e st2] by simp
  qed
  from cap icmp_fast_timer_exact[of n st] emit zero run_events_bound[of evs e st2] second
  show ?thesis by blast
qed

theorem icmp_token_bucket_witness:
  "icmp_tokens (cur_if (icmp_fast_timer 1 empty_bucket_stack)) \<le> 10
   \<and> uint (icmp_tokens (cur_if (icmp_fast_timer 1 empty_bucket_stack))) = 1
   \<and> fst (icmpv6_error sample_env sample_stack udp_buf 4 0 0) \<noteq> None
   \<and> icmp_tokens (cur_if (snd (icmpv6_error sample_env sample_stack udp_buf 4 0 0))) = 9
   \<and> icmp_tokens (cur_if empty_bucket_stack) = 0
   \<and> fst (icmpv6_error sample_env empty_bucket_stack udp_buf 4 0 0) = None
   \<and> list_all (\<lambda>ev. 0 \<le> ticks_of ev) burst
   \<and> elapsed_ms burst \<le> 1000
   \<and> int (length (fst (run_events sample_env sample_stack burst))) \<le> 10 + 1
   \<and> length (fst (run_events sample_env sample_stack burst)) \<le> 20"
proof -
  have t0: "icmp_tokens (cur_if empty_bucket_stack) = 0"
    by (simp add: empty_bucket_stack_def)
  have t10: "icmp_tokens (cur_if sample_stack) = 10"
    by (simp add: sample_stack_def sample_if_def)
  have h2: "fst (icmpv6_error sample_env sample_stack udp_buf 4 0 0) \<noteq> None"
    by code_simp
  have h4: "\<forall>ev \<in> set burst. 0 \<le> ticks_of ev"
    by (simp add: burst_def)
  have h5: "elapsed_ms burst \<le> 1000"
    by code_simp
  have el: "elapsed_ticks burst = 1"
    by code_simp
  note inst = icmp_token_bucket[where n = 1 and st = empty_bucket_stack and e = sample_env
      and ?st1.0 = sample_stack and ?buf1.0 = udp_buf and ?ty1.0 = 4 and ?co1.0 = 0
      and ?aux1.0 = 0 and ?st0.0 = empty_bucket_stack and ?buf0.0 = udp_buf and ?ty0.0 = 4
      and ?co0.0 = 0 and ?aux0.0 = 0 and evs = burst and ?st2.0 = sample_stack]
  from inst have a: "icmp_tokens (cur_if (icmp_fast_timer 1 empty_bucket_stack)) \<le> 10"
    by blast
  from inst t0 have b: "uint (icmp_tokens (cur_if (icmp_fast_timer 1 empty_bucket_stack))) = 1"
    by simp
  from inst h2 t10
  have c: "icmp_tokens (cur_if (snd (icmpv6_error sample_env sample_stack udp_buf 4 0 0))) = 9"
    by simp
  from inst t0 have d: "fst (icmpv6_error sample_env empty_bucket_stack udp_buf 4 0 0) = None"
    by blast
  from inst h4 t10 el
  have f: "int (length (fst (run_events sample_env sample_stack burst))) \<le> 10 + 1"
    by simp
  from inst h4 h5 t10
  have g: "length (fst (run_events sample_env sample_stack burst)) \<le> 20"
    by simp
  from h4 have h4': "list_all (\<lambda>ev. 0 \<le> ticks_of ev) burst"
    by (simp only: list_all_iff)
  from a b h2 c t0 d h4' h5 f g show ?thesis by blast
qed

text \<open>
  The claim as first stated, at most 10 error packets in any window of one second, fails:
  with a full bucket the sample node answers ten requests, is refilled by one tick,
  and answers an eleventh, all within 100 ms.
\<close>

theorem icmp_one_second_window_counterexample:
  "elapsed_ms burst \<le> 1000 \<and> 10 < length (fst (run_events sample_env sample_stack burst))"
  by code_simp

text \<open>
  C3. Every Neighbour Solicitation and Advertisement that is built has hop limit 255, and
  an inbound one whose hop limit is not 255 is to be dropped with no change of state.
  The builders and the advertisement handler do so (\<open>icmpv6_build_ns_hop_limit\<close>,
  \<open>icmpv6_build_na_SomeD\<close>, \<open>icmpv6_na_handler_hop_limit\<close>), and so does the
  solicitation handler whenever it returns (\<open>icmpv6_ns_handler_hop_limit\<close>). But the
  solicitation handler scans the option area before it looks at the hop limit, and the
  scan does not return on an option of length zero: the solicitation below, with hop
  limit 64, is never dropped, because the handler never returns.
\<close>

theorem icmpv6_ns_handler_zero_length_option:
  "hop_limit (options ns_hop64_zero_len) \<noteq> 255
   \<and> icmpv6_ns_handler e st ns_hop64_zero_len = None"
proof -
  have hl: "hop_limit (options ns_hop64_zero_len) \<noteq> 255"
    by code_simp
  have opts: "ns_opts ns_hop64_zero_len = [5, 0, 0, 0, 0, 0, 0, 0]"
    by code_simp
  have "(5 :: u8) \<noteq> ICMPV6_OPT_SRC_LL_ADDR"
    by (simp add: ICMPV6_OPT_SRC_LL_ADDR_def)
  from option_get_zero_length_spins[OF this, of "[0, 0, 0, 0, 0, 0]"]
  have "icmpv6_nd_option_get (ns_opts ns_hop64_zero_len) ICMPV6_OPT_SRC_LL_ADDR = None"
    by (simp only: opts)
  then have "icmpv6_ns_handler e st ns_hop64_zero_len = None"
    by (rule icmpv6_ns_handler_scan_spins)
  with hl show ?thesis by simp
qed

text \<open>
  C4. A Neighbour Solicitation from the unspecified address is to be processed only when
  its destination is a solicited-node multicast address and it carries no source
  link-layer option. The code has the destination test the wrong way round: the probe
  sent to the solicited-node group ff02::1:ff00:2, with no option at all, is dropped,
  and the same probe sent to the all-nodes group ff02::1 is answered.
\<close>

theorem icmpv6_ns_handler_dad_destination:
  "addr_is_ipv6_unspecified (address (src_sa ns_dad_solicited))
   \<and> take 13 (address (dst_sa ns_dad_solicited)) = ADDR_MULTICAST_SOLICITED
   \<and> icmpv6_nd_option_get (ns_opts ns_dad_solicited) ICMPV6_OPT_SRC_LL_ADDR = Some None
   \<and> icmpv6_ns_handler sample_env sample_stack ns_dad_solicited
       = Some (Returned (None, sample_stack))
   \<and> addr_is_ipv6_unspecified (address (src_sa ns_dad_all_nodes))
   \<and> take 13 (address (dst_sa ns_dad_all_nodes)) \<noteq> ADDR_MULTICAST_SOLICITED
   \<and> icmpv6_ns_handler sample_env sample_stack ns_dad_all_nodes
       = Some (Returned (Some na_dad, sample_stack))"
  by code_simp

text \<open>
  C5, as amended. Every Neighbour Advertisement returned in reply to an inbound
  solicitation has the router flag R clear (the builder never sets it), the solicited
  flag S set unless the source of the solicitation is unspecified, and the override flag
  O set exactly when the target is an address of the interface, that is unless the
  advertisement is a proxy one.
\<close>

theorem icmpv6_ns_handler_reply_flags:
  assumes "icmpv6_ns_handler e st buf = Some (Returned (Some na, st'))"
  shows "hd (buf_data na) AND NA_R = 0
         \<and> hd (buf_data na) AND NA_S
             = (if addr_is_ipv6_unspecified (address (src_sa buf)) then 0 else NA_S)
         \<and> hd (buf_data na) AND NA_O
             = (if addr_interface_address_compare e (cur_if st) (ns_target buf) = 0
                then NA_O else 0)"
proof -
  from icmpv6_ns_handler_reply[OF assms] obtain cur' tl earo where
    b: "icmpv6_build_na e cur' True
          (addr_interface_address_compare e (cur_if st) (ns_target buf) = 0) tl
          (ns_target buf) earo (address (src_sa buf)) = Some na"
    by blast
  from icmpv6_build_na_SomeD[OF b]
  have f: "hd (buf_data na) =
             (if \<not> addr_is_ipv6_unspecified (address (src_sa buf))
              then (if addr_interface_address_compare e (cur_if st) (ns_target buf) = 0
                    then NA_O else 0) OR NA_S
              else (if addr_interface_address_compare e (cur_if st) (ns_target buf) = 0
                    then NA_O else 0))"
    by simp
  show ?thesis
    unfolding f by (simp add: NA_R_def NA_S_def NA_O_def)
qed

theorem icmpv6_ns_handler_reply_flags_witness:
  "icmpv6_ns_handler sample_env sample_stack ns_s1 = Some (Returned (Some na_s1, sample_stack))
   \<and> hd (buf_data na_s1) AND NA_R = 0
   \<and> hd (buf_data na_s1) AND NA_S = NA_S
   \<and> hd (buf_data na_s1) AND NA_O = NA_O"
proof -
  have h: "icmpv6_ns_handler sample_env sample_stack ns_s1
           = Some (Returned (Some na_s1, sample_stack))"
    by code_simp
  have s: "\<not> addr_is_ipv6_unspecified (address (src_sa ns_s1))"
    by code_simp
  have t: "addr_interface_address_compare sample_env (cur_if sample_stack) (ns_target ns_s1) = 0"
    by code_simp
  from icmpv6_ns_handler_reply_flags[OF h] s t h show ?thesis by simp
qed

text \<open>
  The claim as first stated has R = 1 in every such advertisement. The reply of the
  sample node to the registration of scenario S1 has the flag octet 0x60: S and O, and
  no R.
\<close>

theorem icmpv6_ns_handler_router_flag_counterexample:
  "ns_reply_of (icmpv6_ns_handler sample_env sample_stack ns_s1) = Some na_s1
   \<and> hd (buf_data na_s1) = 0x60
   \<and> hd (buf_data na_s1) AND NA_R \<noteq> NA_R"
  by code_simp

text \<open>
  C6, as amended. In every Neighbour Advertisement that is built, the source address is
  the target when the target is assigned to the interface and otherwise the address
  that source address selection returns for the destination; the destination address
  is the all-nodes group ff02::1 when the source of the solicitation is unspecified,
  otherwise the link-local address made from the EUI-64 of the registration option
  (prefix fe80::, first octet of the EUI-64 with bit 1 inverted) when such an option
  with a status other than success is attached, and otherwise the source of the
  solicitation.
\<close>

theorem icmpv6_build_na_addresses:
  assumes "icmpv6_build_na e cur solicited override tllao_required target earo src_addr = Some na"
  shows "(if addr_is_assigned_to_interface e cur target then Some target
          else addr_select_source e cur (address (dst_sa na))) = Some (address (src_sa na))
         \<and> address (dst_sa na) =
             (if addr_is_ipv6_unspecified src_addr then ADDR_LINK_LOCAL_ALL_NODES
              else case earo of
                     None \<Rightarrow> src_addr
                   | Some ea \<Rightarrow> if status ea \<noteq> ARO_SUCCESS
                                then ADDR_LINK_LOCAL_PREFIX
                                     @ (take 8 (eui64 ea))[0 := (eui64 ea ! 0) XOR 2]
                                else src_addr)"
  using icmpv6_build_na_SomeD[OF assms, unfolded ll_from_eui64_def] by simp

theorem icmpv6_build_na_addresses_witness:
  "icmpv6_build_na sample_env sample_if True True False our_ll (Some dup_earo) peer_ll
     = Some na_dup
   \<and> address (src_sa na_dup) = our_ll
   \<and> address (dst_sa na_dup)
       = [0xfe, 0x80, 0, 0, 0, 0, 0, 0, 0x00, 0x11, 0x22, 0x33, 0x44, 0x55, 0x66, 0x77]"
proof -
  have h: "icmpv6_build_na sample_env sample_if True True False our_ll (Some dup_earo) peer_ll
           = Some na_dup"
    by code_simp
  have a: "addr_is_assigned_to_interface sample_env sample_if our_ll"
    by code_simp
  have u: "\<not> addr_is_ipv6_unspecified peer_ll"
    by code_simp
  have s: "status dup_earo \<noteq> ARO_SUCCESS"
    by code_simp
  have l: "ADDR_LINK_LOCAL_PREFIX @ (take 8 (eui64 dup_earo))[0 := (eui64 dup_earo ! 0) XOR 2]
           = [0xfe, 0x80, 0, 0, 0, 0, 0, 0, 0x00, 0x11, 0x22, 0x33, 0x44, 0x55, 0x66, 0x77]"
    by code_simp
  from icmpv6_build_na_addresses[OF h] a u s l h show ?thesis by simp
qed

text \<open>
  The claim as first stated sends every advertisement without a failed registration to
  the source of the solicitation. The answer to a duplicate-address probe, whose source
  is the unspecified address, goes to the all-nodes group instead.
\<close>

theorem icmpv6_build_na_dad_destination_counterexample:
  "icmpv6_build_na sample_env sample_if True True True our_ll None ADDR_UNSPECIFIED = Some na_dad
   \<and> address (dst_sa na_dad) = ADDR_LINK_LOCAL_ALL_NODES
   \<and> address (dst_sa na_dad) \<noteq> ADDR_UNSPECIFIED"
  by code_simp

text \<open>
  C7. An inbound Neighbour Advertisement whose IP destination is multicast and whose
  solicited flag is set is dropped: the handler returns nothing and the state, the
  neighbour cache included, is the one it was called with.
\<close>

theorem icmpv6_na_handler_multicast_solicited:
  "addr_is_ipv6_multicast (address (dst_sa buf)) \<Longrightarrow> na_flags buf AND NA_S \<noteq> 0 \<Longrightarrow>
   icmpv6_na_handler e st buf = Some (None, st)"
  by (simp add: icmpv6_na_handler_def Let_def na_flags_def)

theorem icmpv6_na_handler_multicast_solicited_witness:
  "addr_is_ipv6_multicast (address (dst_sa na_mc_solicited))
   \<and> na_flags na_mc_solicited AND NA_S \<noteq> 0
   \<and> icmpv6_na_handler sample_env sample_stack na_mc_solicited = Some (None, sample_stack)"
proof -
  have h1: "addr_is_ipv6_multicast (address (dst_sa na_mc_solicited))"
    by code_simp
  have h2: "na_flags na_mc_solicited AND NA_S \<noteq> 0"
    by code_simp
  from icmpv6_na_handler_multicast_solicited[OF h1 h2, of sample_env sample_stack] h1 h2
  show ?thesis by simp
qed

text \<open>
  C10. An inbound Neighbour Advertisement whose target has no entry in the neighbour
  cache leaves the cache as it is: the handler returns, with nothing to send, and the
  interface, its neighbour cache included, is unchanged. Processing an advertisement
  never creates an entry.
\<close>

theorem icmpv6_na_handler_unknown_target:
  assumes "ipv6_neighbour_lookup (ipv6_neighbour_cache (cur_if st)) (na_target buf) = None"
  shows "\<exists>st'. icmpv6_na_handler e st buf = Some (None, st')
               \<and> cur_if st' = cur_if st
               \<and> ipv6_neighbour_cache (cur_if st') = ipv6_neighbour_cache (cur_if st)"
proof (cases "code (options buf) \<noteq> 0 \<or> hop_limit (options buf) \<noteq> 255
              \<or> \<not> icmpv6_options_well_formed_in_buffer buf 20
              \<or> addr_is_ipv6_multicast (na_target buf)
              \<or> (addr_is_ipv6_multicast (address (dst_sa buf)) \<and> na_flags buf AND NA_S \<noteq> 0)
              \<or> addr_get_entry e (cur_if st) (na_target buf)")
  case True
  then have "icmpv6_na_handler e st buf = Some (None, st)"
    unfolding na_target_def na_flags_def
    by (auto simp: icmpv6_na_handler_def Let_def)
  then show ?thesis by simp
next
  case False
  then have wf: "icmpv6_options_well_formed_in_buffer buf 20" by simp
  from find_option_returns[OF wf] obtain aro0 where
    a: "icmpv6_find_option_in_buffer buf 20 ICMPV6_OPT_ADDR_REGISTRATION = Some aro0" by auto
  define st1 where
    "st1 = (case (case aro0 of None \<Rightarrow> None | Some a \<Rightarrow> if a ! 1 \<noteq> 2 then None else Some a) of
              None \<Rightarrow> st
            | Some a \<Rightarrow> icmpv6_na_wisun_aro_handler st a (address (src_sa buf)))"
  have c: "cur_if st1 = cur_if st"
    by (simp add: st1_def icmpv6_na_wisun_aro_handler_cur_if split: option.splits)
  have "icmpv6_na_handler e st buf = Some (None, st1)"
    using False assms
    unfolding na_target_def na_flags_def icmpv6_na_handler_def Let_def a option.case
    unfolding st1_def[symmetric] c
    by auto
  with c show ?thesis by simp
qed

theorem icmpv6_na_handler_unknown_target_witness:
  "ipv6_neighbour_lookup (ipv6_neighbour_cache (cur_if sample_stack)) (na_target na_unknown) = None
   \<and> icmpv6_na_handler sample_env sample_stack na_unknown = Some (None, sample_stack)"
proof -
  have h: "ipv6_neighbour_lookup (ipv6_neighbour_cache (cur_if sample_stack))
             (na_target na_unknown) = None"
    by code_simp
  have r: "icmpv6_na_handler sample_env sample_stack na_unknown = Some (None, sample_stack)"
    by code_simp
  from icmpv6_na_handler_unknown_target[OF h, of sample_env] r h
  show ?thesis by simp
qed

end
